theory Spec2Isabelle
  imports Main "HOL-Library.Sublist"
begin

section \<open>The Conan recipes of aos_core_lib_cpp\<close>

text \<open>
  The repository holds two Conan recipes, \<^verbatim>\<open>docker/conan/conanfile.py\<close> (class
  \<^verbatim>\<open>AosCoreLibCpp\<close>) and \<^verbatim>\<open>docker/conan/pkcs11provider-1.0.py\<close> (class
  \<^verbatim>\<open>PKCS11Provider\<close>). A recipe method computes nothing: all it does is call the
  Conan API, in a fixed order. The model therefore records, for every method, the calls
  it makes into the external tool, with their arguments, and what the tool answers.
\<close>

subsection \<open>Calls into the external tool\<close>

text \<open>The helper classes of \<^verbatim>\<open>conan.tools\<close> that the recipes instantiate.\<close>

datatype helper = Git | VirtualBuildEnv | PkgConfigDeps | MesonToolchain | Meson

text \<open>
  One constructor per kind of call the two files make:
  \<^item> \<open>Requires r\<close> is \<^verbatim>\<open>self.requires(r)\<close>, \<open>Tool_requires r\<close> is
    \<^verbatim>\<open>self.tool_requires(r)\<close>, \<open>Build_requires r\<close> is \<^verbatim>\<open>self.build_requires(r)\<close>;
  \<^item> \<open>Run cmd cwd\<close> is \<^verbatim>\<open>self.run(cmd, cwd=cwd)\<close>;
  \<^item> \<open>Set_option pkg opt v\<close> is the assignment \<^verbatim>\<open>self.options[pkg].opt = v\<close>;
  \<^item> \<open>Basic_layout\<close> is \<^verbatim>\<open>basic_layout(self)\<close>;
  \<^item> \<open>New h\<close> is the construction \<^verbatim>\<open>h(self)\<close> of a helper object;
  \<^item> \<open>Git_clone url args target\<close> is \<^verbatim>\<open>git.clone(url, args=args, target=target)\<close>
    and \<open>Git_checkout rev\<close> is \<^verbatim>\<open>git.checkout(rev)\<close>;
  \<^item> \<open>Generate h\<close> is \<^verbatim>\<open>generate()\<close> on the helper object of class \<open>h\<close>;
  \<^item> \<open>Meson_configure\<close>, \<open>Meson_build\<close>, \<open>Meson_install\<close> are the three methods
    called on the \<^verbatim>\<open>Meson\<close> helper.
\<close>

datatype call =
    Requires string
  | Tool_requires string
  | Build_requires string
  | Run string string
  | Set_option string string bool
  | Basic_layout
  | New helper
  | Git_clone string "string list" string
  | Git_checkout string
  | Generate helper
  | Meson_configure
  | Meson_build
  | Meson_install

text \<open>
  What the external tool answers to a call: it returns, it raises an exception \<open>e\<close>, or
  it never comes back. The recipes define no exception class, so the type of
  exceptions is a parameter.
\<close>

datatype 'e outcome = Returns | Raises 'e | Hangs

text \<open>
  The external tool decides the outcome of a call from the calls made so far and the
  call itself (so it may, for instance, fail a clone the first time and accept a second
  attempt). A statement takes the tool and the log of the calls made so far, and gives
  the extended log and its own outcome.
\<close>

type_synonym 'e tool = "call list \<Rightarrow> call \<Rightarrow> 'e outcome"

type_synonym 'e stmt = "'e tool \<Rightarrow> call list \<Rightarrow> call list \<times> 'e outcome"

text \<open>A call statement: the call is logged, and its outcome is the tool's.\<close>

definition perform :: "call \<Rightarrow> 'e stmt" where
  "perform c tool log = (log @ [c], tool log c)"

text \<open>
  A Python block: the statements run in order; the first one that does not return
  ends the block with its outcome (an exception leaves the method, since neither file
  has a \<^verbatim>\<open>try\<close>).
\<close>

fun block :: "'e stmt list \<Rightarrow> 'e stmt" where
  "block [] tool log = (log, Returns)"
| "block (s # ss) tool log =
     (case s tool log of
        (log', Returns) \<Rightarrow> block ss tool log'
      | (log', Raises e) \<Rightarrow> (log', Raises e)
      | (log', Hangs) \<Rightarrow> (log', Hangs))"

text \<open>The calls a method made: what it appended to the log it was given.\<close>

definition calls_made :: "call list \<Rightarrow> call list \<times> 'e outcome \<Rightarrow> call list" where
  "calls_made log res = drop (length log) (fst res)"

subsection \<open>The attributes of a recipe object\<close>

text \<open>
  \<^verbatim>\<open>settings\<close> is a class attribute of both recipes; \<^verbatim>\<open>recipe_folder\<close> and
  \<^verbatim>\<open>source_folder\<close> are set on the object by Conan before it calls a method, and the
  recipes only read them.
\<close>

record conanfile =
  settings :: "string list"
  recipe_folder :: string
  source_folder :: string

record aos_core_lib_cpp = conanfile +
  generators :: "string list"

record pkcs11_provider = conanfile +
  name :: string
  branch :: string
  revision :: string
  version :: string

definition AosCoreLibCpp :: "string \<Rightarrow> string \<Rightarrow> aos_core_lib_cpp" where
  "AosCoreLibCpp rf sf =
     \<lparr> settings = [''os'', ''compiler'', ''build_type'', ''arch''],
       recipe_folder = rf,
       source_folder = sf,
       generators = [''CMakeToolchain'', ''CMakeDeps''] \<rparr>"

definition PKCS11Provider :: "string \<Rightarrow> string \<Rightarrow> pkcs11_provider" where
  "PKCS11Provider rf sf =
     \<lparr> settings = [''os'', ''compiler'', ''build_type'', ''arch''],
       recipe_folder = rf,
       source_folder = sf,
       name = ''pkcs11provider'',
       branch = ''main'',
       revision = ''v1.0'',
       version = ''1.0'' \<rparr>"

subsection \<open>\<^verbatim>\<open>os.path.join\<close>\<close>

text \<open>
  \<^verbatim>\<open>os.path.join\<close> belongs to the Python standard library, not to the repository. The
  recipes live under \<^verbatim>\<open>docker/\<close> and run on Linux, where it is
  \<^verbatim>\<open>posixpath.join\<close>; for two arguments: a second component that starts with a slash
  replaces the first; an empty first component, or one that ends with a slash, is
  followed by the second directly; otherwise a slash is put between them.
\<close>

definition path_join :: "string \<Rightarrow> string \<Rightarrow> string" where
  "path_join a b =
     (if b \<noteq> [] \<and> hd b = CHR ''/'' then b
      else if a = [] \<or> last a = CHR ''/'' then a @ b
      else a @ ''/'' @ b)"

subsection \<open>\<^verbatim>\<open>conanfile.py\<close>: class \<^verbatim>\<open>AosCoreLibCpp\<close>\<close>

text \<open>
  In \<^verbatim>\<open>requirements()\<close> the source computes \<^verbatim>\<open>pkcs11path\<close> after the fifth
  requirement. The computation calls nothing but \<^verbatim>\<open>os.path.join\<close> on two strings, which
  has no effect and does not raise, so the binding stands in front of the block.
\<close>

definition AosCoreLibCpp_requirements :: "aos_core_lib_cpp \<Rightarrow> 'e stmt" where
  "AosCoreLibCpp_requirements self =
     (let pkcs11path = path_join (recipe_folder self) ''pkcs11provider-1.0.py'' in
      block
       [perform (Requires ''grpc/1.54.3''),
        perform (Requires ''gtest/1.14.0''),
        perform (Requires ''libcurl/8.8.0''),
        perform (Requires ''openssl/3.2.1''),
        perform (Requires ''poco/1.13.2''),
        perform (Run (''conan export '' @ pkcs11path @ '' --user user --channel stable'')
                     (recipe_folder self)),
        perform (Requires ''pkcs11provider/1.0@user/stable'')])"

definition AosCoreLibCpp_build_requirements :: "aos_core_lib_cpp \<Rightarrow> 'e stmt" where
  "AosCoreLibCpp_build_requirements self =
     block
      [perform (Tool_requires ''grpc/1.54.3''),
       perform (Tool_requires ''gtest/1.14.0''),
       perform (Tool_requires ''protobuf/3.21.12'')]"

definition AosCoreLibCpp_configure :: "aos_core_lib_cpp \<Rightarrow> 'e stmt" where
  "AosCoreLibCpp_configure self =
     block
      [perform (Set_option ''openssl'' ''no_dso'' False),
       perform (Set_option ''openssl'' ''shared'' True)]"

subsection \<open>\<^verbatim>\<open>pkcs11provider-1.0.py\<close>: class \<^verbatim>\<open>PKCS11Provider\<close>\<close>

definition PKCS11Provider_requirements :: "pkcs11_provider \<Rightarrow> 'e stmt" where
  "PKCS11Provider_requirements self =
     block [perform (Requires ''openssl/3.2.1'')]"

definition PKCS11Provider_configure :: "pkcs11_provider \<Rightarrow> 'e stmt" where
  "PKCS11Provider_configure self =
     block [perform (Set_option ''openssl'' ''shared'' True)]"

definition PKCS11Provider_build_requirements :: "pkcs11_provider \<Rightarrow> 'e stmt" where
  "PKCS11Provider_build_requirements self =
     block [perform (Build_requires ''meson/0.64.1'')]"

definition PKCS11Provider_layout :: "pkcs11_provider \<Rightarrow> 'e stmt" where
  "PKCS11Provider_layout self =
     block [perform Basic_layout]"

definition PKCS11Provider_source :: "pkcs11_provider \<Rightarrow> 'e stmt" where
  "PKCS11Provider_source self =
     (let clone_args = [''--branch'', branch self] in
      block
       [perform (New Git),
        perform (Git_clone ''https://github.com/latchset/pkcs11-provider.git''
                           clone_args (source_folder self)),
        perform (Git_checkout (revision self))])"

definition PKCS11Provider_generate :: "pkcs11_provider \<Rightarrow> 'e stmt" where
  "PKCS11Provider_generate self =
     block
      [perform (New VirtualBuildEnv),
       perform (Generate VirtualBuildEnv),
       perform (New PkgConfigDeps),
       perform (Generate PkgConfigDeps),
       perform (New MesonToolchain),
       perform (Generate MesonToolchain)]"

definition PKCS11Provider_build :: "pkcs11_provider \<Rightarrow> 'e stmt" where
  "PKCS11Provider_build self =
     block
      [perform (New Meson),
       perform Meson_configure,
       perform Meson_build]"

definition PKCS11Provider_package :: "pkcs11_provider \<Rightarrow> 'e stmt" where
  "PKCS11Provider_package self =
     block
      [perform (New Meson),
       perform Meson_install]"

subsection \<open>The methods of each class, as Conan calls them by name\<close>

datatype aos_method = Aos_requirements | Aos_build_requirements | Aos_configure

datatype pkcs11_method =
    P11_requirements | P11_configure | P11_build_requirements | P11_layout
  | P11_source | P11_generate | P11_build | P11_package

fun AosCoreLibCpp_method :: "aos_method \<Rightarrow> aos_core_lib_cpp \<Rightarrow> 'e stmt" where
  "AosCoreLibCpp_method Aos_requirements = AosCoreLibCpp_requirements"
| "AosCoreLibCpp_method Aos_build_requirements = AosCoreLibCpp_build_requirements"
| "AosCoreLibCpp_method Aos_configure = AosCoreLibCpp_configure"

fun PKCS11Provider_method :: "pkcs11_method \<Rightarrow> pkcs11_provider \<Rightarrow> 'e stmt" where
  "PKCS11Provider_method P11_requirements = PKCS11Provider_requirements"
| "PKCS11Provider_method P11_configure = PKCS11Provider_configure"
| "PKCS11Provider_method P11_build_requirements = PKCS11Provider_build_requirements"
| "PKCS11Provider_method P11_layout = PKCS11Provider_layout"
| "PKCS11Provider_method P11_source = PKCS11Provider_source"
| "PKCS11Provider_method P11_generate = PKCS11Provider_generate"
| "PKCS11Provider_method P11_build = PKCS11Provider_build"
| "PKCS11Provider_method P11_package = PKCS11Provider_package"

subsection \<open>A tool that cooperates\<close>

text \<open>
  \<open>lets_return tool log cs\<close>: the tool lets each of the calls \<open>cs\<close> return when they
  are made one after the other, the first of them after the calls of \<open>log\<close>.
\<close>

fun lets_return :: "'e tool \<Rightarrow> call list \<Rightarrow> call list \<Rightarrow> bool" where
  "lets_return tool log [] = True"
| "lets_return tool log (c # cs) = (tool log c = Returns \<and> lets_return tool (log @ [c]) cs)"

subsection \<open>Reading a log of calls\<close>

text \<open>The references a log declares with \<^verbatim>\<open>self.requires\<close>, in order.\<close>

fun requires_arg :: "call \<Rightarrow> string option" where
  "requires_arg (Requires r) = Some r"
| "requires_arg _ = None"

definition required :: "call list \<Rightarrow> string list" where
  "required cs = List.map_filter requires_arg cs"

text \<open>The references a log declares with \<^verbatim>\<open>self.tool_requires\<close>, in order.\<close>

fun tool_requires_arg :: "call \<Rightarrow> string option" where
  "tool_requires_arg (Tool_requires r) = Some r"
| "tool_requires_arg _ = None"

definition tool_required :: "call list \<Rightarrow> string list" where
  "tool_required cs = List.map_filter tool_requires_arg cs"

text \<open>
  The references a log declares in any of the three ways (\<^verbatim>\<open>self.requires\<close>,
  \<^verbatim>\<open>self.tool_requires\<close>, \<^verbatim>\<open>self.build_requires\<close>), in order.
\<close>

fun declared_arg :: "call \<Rightarrow> string option" where
  "declared_arg (Requires r) = Some r"
| "declared_arg (Tool_requires r) = Some r"
| "declared_arg (Build_requires r) = Some r"
| "declared_arg _ = None"

definition declared :: "call list \<Rightarrow> string list" where
  "declared cs = List.map_filter declared_arg cs"

text \<open>The git remotes a log contacts: the URLs of its clones.\<close>

fun git_remote :: "call \<Rightarrow> string option" where
  "git_remote (Git_clone url args target) = Some url"
| "git_remote _ = None"

definition remotes_contacted :: "call list \<Rightarrow> string list" where
  "remotes_contacted cs = List.map_filter git_remote cs"

text \<open>The operations on the \<^verbatim>\<open>Git\<close> helper.\<close>

fun git_operation :: "call \<Rightarrow> bool" where
  "git_operation (Git_clone url args target) = True"
| "git_operation (Git_checkout commit) = True"
| "git_operation _ = False"

text \<open>
  A Conan reference is \<^verbatim>\<open>name/version\<close> or \<^verbatim>\<open>name/version@user/channel\<close>. The four
  functions below read its parts (the user and the channel are empty when absent).
\<close>

definition ref_name :: "string \<Rightarrow> string" where
  "ref_name r = takeWhile (\<lambda>c. c \<noteq> CHR ''/'') r"

definition ref_version :: "string \<Rightarrow> string" where
  "ref_version r =
     takeWhile (\<lambda>c. c \<noteq> CHR ''@'') (drop 1 (dropWhile (\<lambda>c. c \<noteq> CHR ''/'') r))"

definition ref_user :: "string \<Rightarrow> string" where
  "ref_user r =
     takeWhile (\<lambda>c. c \<noteq> CHR ''/'') (drop 1 (dropWhile (\<lambda>c. c \<noteq> CHR ''@'') r))"

definition ref_channel :: "string \<Rightarrow> string" where
  "ref_channel r =
     drop 1 (dropWhile (\<lambda>c. c \<noteq> CHR ''/'') (drop 1 (dropWhile (\<lambda>c. c \<noteq> CHR ''@'') r)))"

text \<open>
  A pinned version is a literal dotted number such as \<^verbatim>\<open>1.54.3\<close>: one or more
  components separated by dots, each a non-empty run of decimal digits. A Conan
  version range (\<^verbatim>\<open>[>=1.0 <2.0]\<close>) or any other floating form is not of this shape.
\<close>

fun split_on :: "char \<Rightarrow> string \<Rightarrow> string list" where
  "split_on d [] = [[]]"
| "split_on d (x # xs) =
     (if x = d then [] # split_on d xs
      else (case split_on d xs of
              [] \<Rightarrow> [[x]]
            | p # ps \<Rightarrow> (x # p) # ps))"

definition is_digit :: "char \<Rightarrow> bool" where
  "is_digit c = (c \<in> set ''0123456789'')"

definition fixed_version :: "string \<Rightarrow> bool" where
  "fixed_version v = list_all (\<lambda>p. p \<noteq> [] \<and> list_all is_digit p) (split_on (CHR ''.'') v)"

definition pinned :: "string \<Rightarrow> bool" where
  "pinned r = fixed_version (ref_version r)"

text \<open>
  The ways in which a call of one recipe can reach the other recipe: it runs a command
  (only \<^verbatim>\<open>self.run\<close> can read or execute a file), or it declares a requirement on the
  package that the nested recipe defines, \<^verbatim>\<open>pkcs11provider\<close>. (The parent recipe,
  \<^verbatim>\<open>AosCoreLibCpp\<close>, has no name, so no requirement can refer to it.)
\<close>

fun cross_recipe :: "call \<Rightarrow> bool" where
  "cross_recipe (Run cmd cwd) = True"
| "cross_recipe (Requires r) = (ref_name r = ''pkcs11provider'')"
| "cross_recipe (Tool_requires r) = (ref_name r = ''pkcs11provider'')"
| "cross_recipe (Build_requires r) = (ref_name r = ''pkcs11provider'')"
| "cross_recipe _ = False"

text \<open>
  The command line of the Conan client that exports the recipe file \<open>path\<close> under a
  user and a channel: \<^verbatim>\<open>conan export <path> --user <user> --channel <channel>\<close>. It
  serves to say which user and channel a command passes.
\<close>

definition conan_export_cmd :: "string \<Rightarrow> string \<Rightarrow> string \<Rightarrow> string" where
  "conan_export_cmd path user channel =
     ''conan export '' @ path @ '' --user '' @ user @ '' --channel '' @ channel"

text \<open>The requirements on OpenSSL in a log, and the values it gives an OpenSSL option.\<close>

definition openssl_required :: "call list \<Rightarrow> string list" where
  "openssl_required cs = filter (\<lambda>r. ref_name r = ''openssl'') (required cs)"

fun option_value :: "string \<Rightarrow> string \<Rightarrow> call \<Rightarrow> bool option" where
  "option_value pkg opt (Set_option p q v) = (if p = pkg \<and> q = opt then Some v else None)"
| "option_value pkg opt _ = None"

definition option_values :: "string \<Rightarrow> string \<Rightarrow> call list \<Rightarrow> bool list" where
  "option_values pkg opt cs = List.map_filter (option_value pkg opt) cs"

section \<open>Properties of statements\<close>

text \<open>
  A block of calls performs a prefix of them: all of them when it returns, otherwise
  up to and including the first call that the tool does not let return, whose outcome
  is then the block's.
\<close>

lemma block_performs:
  "\<exists>n. n \<le> length cs \<and> (cs \<noteq> [] \<longrightarrow> 0 < n)
     \<and> fst (block (map perform cs) tool log) = log @ take n cs
     \<and> (snd (block (map perform cs) tool log) = Returns \<longrightarrow> n = length cs)
     \<and> (\<forall>i<n. tool (log @ take i cs) (cs ! i) =
            (if Suc i = n then snd (block (map perform cs) tool log) else Returns))"
proof (induction cs arbitrary: log)
  case Nil
  show ?case by simp
next
  case (Cons c cs)
  show ?case
  proof (cases "tool log c = Returns")
    case True
    from Cons.IH [of "log @ [c]"] obtain n where n:
      "n \<le> length cs" "cs \<noteq> [] \<longrightarrow> 0 < n"
      "fst (block (map perform cs) tool (log @ [c])) = (log @ [c]) @ take n cs"
      "snd (block (map perform cs) tool (log @ [c])) = Returns \<longrightarrow> n = length cs"
      "\<forall>i<n. tool ((log @ [c]) @ take i cs) (cs ! i) =
            (if Suc i = n then snd (block (map perform cs) tool (log @ [c])) else Returns)"
      by blast
    have eq: "block (map perform (c # cs)) tool log = block (map perform cs) tool (log @ [c])"
      using True by (simp add: perform_def)
    have "\<forall>i<Suc n. tool (log @ take i (c # cs)) ((c # cs) ! i) =
            (if Suc i = Suc n then snd (block (map perform cs) tool (log @ [c])) else Returns)"
    proof (intro allI impI)
      fix i assume i: "i < Suc n"
      show "tool (log @ take i (c # cs)) ((c # cs) ! i) =
            (if Suc i = Suc n then snd (block (map perform cs) tool (log @ [c])) else Returns)"
      proof (cases i)
        case 0
        show ?thesis
        proof (cases "n = 0")
          case True
          with n(2) have "cs = []" by blast
          with 0 \<open>tool log c = Returns\<close> True show ?thesis by simp
        next
          case False
          with 0 \<open>tool log c = Returns\<close> show ?thesis by simp
        qed
      next
        case (Suc j)
        with i have "j < n" by simp
        with n(5) Suc show ?thesis by simp
      qed
    qed
    with n eq show ?thesis
      by (intro exI [of _ "Suc n"]) simp
  next
    case False
    then have "block (map perform (c # cs)) tool log = (log @ [c], tool log c)"
      by (cases "tool log c") (simp_all add: perform_def)
    with False show ?thesis
      by (intro exI [of _ "Suc 0"]) simp
  qed
qed

lemma block_performs_calls:
  "\<exists>n. n \<le> length cs \<and> (cs \<noteq> [] \<longrightarrow> 0 < n)
     \<and> calls_made log (block (map perform cs) tool log) = take n cs
     \<and> (snd (block (map perform cs) tool log) = Returns \<longrightarrow> n = length cs)
     \<and> (\<forall>i<n. tool (log @ take i cs) (cs ! i) =
            (if Suc i = n then snd (block (map perform cs) tool log) else Returns))"
  using block_performs [of cs tool log] by (auto simp: calls_made_def)

lemma performs_prefix:
  "prefix (calls_made log (block (map perform cs) tool log)) cs"
  using block_performs_calls [of cs log tool] by (auto simp: take_is_prefix)

lemma performs_returns:
  "snd (block (map perform cs) tool log) = Returns \<Longrightarrow>
   calls_made log (block (map perform cs) tool log) = cs"
  using block_performs_calls [of cs log tool] by auto

lemma performs_distinct:
  "distinct cs \<Longrightarrow> distinct (calls_made log (block (map perform cs) tool log))"
  using block_performs_calls [of cs log tool] by auto

lemma performs_length:
  "length (calls_made log (block (map perform cs) tool log)) \<le> length cs"
  using block_performs_calls [of cs log tool] by auto

lemma performs_no_hang:
  assumes "\<And>h c. tool h c \<noteq> Hangs"
  shows "snd (block (map perform cs) tool log) \<noteq> Hangs"
proof (cases "cs = []")
  case True
  then show ?thesis by simp
next
  case False
  from block_performs_calls [of cs log tool] False obtain n where
    "0 < n"
    "\<forall>i<n. tool (log @ take i cs) (cs ! i) =
            (if Suc i = n then snd (block (map perform cs) tool log) else Returns)"
    by blast
  then have "tool (log @ take (n - 1) cs) (cs ! (n - 1)) = snd (block (map perform cs) tool log)"
    by (auto dest: spec [of _ "n - 1"])
  with assms show ?thesis by metis
qed

lemma performs_failure_is_last:
  assumes "calls_made log (block (map perform cs) tool log) = before @ c # after"
    and "tool (log @ before) c \<noteq> Returns"
  shows "snd (block (map perform cs) tool log) = tool (log @ before) c \<and> after = []"
proof -
  from block_performs_calls [of cs log tool] obtain n where n:
    "n \<le> length cs"
    "calls_made log (block (map perform cs) tool log) = take n cs"
    "\<forall>i<n. tool (log @ take i cs) (cs ! i) =
            (if Suc i = n then snd (block (map perform cs) tool log) else Returns)"
    by blast
  let ?i = "length before"
  from n(1,2) assms(1) have len: "n = length before + Suc (length after)"
    by (metis length_take min.absorb2 length_append length_Cons)
  have tk: "take ?i cs = before"
    using n(2) assms(1) len
    by (metis append_eq_conv_conj take_take min.absorb1 le_add1)
  have nth: "cs ! ?i = c"
    using n(2) assms(1) len
    by (metis nth_take nth_append_length less_add_Suc1 add_Suc_right)
  from len have "?i < n" by simp
  with n(3) tk nth have "tool (log @ before) c =
      (if Suc ?i = n then snd (block (map perform cs) tool log) else Returns)"
    by metis
  with assms(2) len show ?thesis
    by (auto split: if_splits)
qed

lemma performs_raises_from_tool:
  assumes "snd (block (map perform cs) tool log) = Raises e"
  shows "\<exists>before c. calls_made log (block (map perform cs) tool log) = before @ [c]
           \<and> tool (log @ before) c = Raises e"
proof -
  from assms have ne: "cs \<noteq> []" by auto
  from block_performs_calls [of cs log tool] ne obtain n where n:
    "n \<le> length cs" "0 < n"
    "calls_made log (block (map perform cs) tool log) = take n cs"
    "\<forall>i<n. tool (log @ take i cs) (cs ! i) =
            (if Suc i = n then snd (block (map perform cs) tool log) else Returns)"
    by blast
  from n(2,4) assms have "tool (log @ take (n - 1) cs) (cs ! (n - 1)) = Raises e"
    by (auto dest: spec [of _ "n - 1"])
  moreover from n(1,2) have "take n cs = take (n - 1) cs @ [cs ! (n - 1)]"
    by (metis Suc_pred' take_Suc_conv_app_nth less_le_trans lessI)
  ultimately show ?thesis using n(3) by metis
qed

section \<open>The body of every method\<close>

text \<open>
  Every method of the two classes is a block of calls: the lemmas below unfold each
  definition into the list of the calls it makes, in the order of the source.
\<close>

lemma AosCoreLibCpp_requirements_body:
  "AosCoreLibCpp_requirements self =
     block (map perform
       [Requires ''grpc/1.54.3'',
        Requires ''gtest/1.14.0'',
        Requires ''libcurl/8.8.0'',
        Requires ''openssl/3.2.1'',
        Requires ''poco/1.13.2'',
        Run (''conan export '' @ path_join (recipe_folder self) ''pkcs11provider-1.0.py''
               @ '' --user user --channel stable'') (recipe_folder self),
        Requires ''pkcs11provider/1.0@user/stable''])"
  by (simp add: AosCoreLibCpp_requirements_def Let_def)

lemma AosCoreLibCpp_build_requirements_body:
  "AosCoreLibCpp_build_requirements self =
     block (map perform
       [Tool_requires ''grpc/1.54.3'',
        Tool_requires ''gtest/1.14.0'',
        Tool_requires ''protobuf/3.21.12''])"
  by (simp add: AosCoreLibCpp_build_requirements_def)

lemma AosCoreLibCpp_configure_body:
  "AosCoreLibCpp_configure self =
     block (map perform
       [Set_option ''openssl'' ''no_dso'' False,
        Set_option ''openssl'' ''shared'' True])"
  by (simp add: AosCoreLibCpp_configure_def)

lemma PKCS11Provider_requirements_body:
  "PKCS11Provider_requirements self = block (map perform [Requires ''openssl/3.2.1''])"
  by (simp add: PKCS11Provider_requirements_def)

lemma PKCS11Provider_configure_body:
  "PKCS11Provider_configure self =
     block (map perform [Set_option ''openssl'' ''shared'' True])"
  by (simp add: PKCS11Provider_configure_def)

lemma PKCS11Provider_build_requirements_body:
  "PKCS11Provider_build_requirements self =
     block (map perform [Build_requires ''meson/0.64.1''])"
  by (simp add: PKCS11Provider_build_requirements_def)

lemma PKCS11Provider_layout_body:
  "PKCS11Provider_layout self = block (map perform [Basic_layout])"
  by (simp add: PKCS11Provider_layout_def)

lemma PKCS11Provider_source_body:
  "PKCS11Provider_source self =
     block (map perform
       [New Git,
        Git_clone ''https://github.com/latchset/pkcs11-provider.git''
          [''--branch'', branch self] (source_folder self),
        Git_checkout (revision self)])"
  by (simp add: PKCS11Provider_source_def Let_def)

lemma PKCS11Provider_generate_body:
  "PKCS11Provider_generate self =
     block (map perform
       [New VirtualBuildEnv, Generate VirtualBuildEnv,
        New PkgConfigDeps, Generate PkgConfigDeps,
        New MesonToolchain, Generate MesonToolchain])"
  by (simp add: PKCS11Provider_generate_def)

lemma PKCS11Provider_build_body:
  "PKCS11Provider_build self =
     block (map perform [New Meson, Meson_configure, Meson_build])"
  by (simp add: PKCS11Provider_build_def)

lemma PKCS11Provider_package_body:
  "PKCS11Provider_package self = block (map perform [New Meson, Meson_install])"
  by (simp add: PKCS11Provider_package_def)

lemma prefix_three:
  "prefix xs [a, b, c] \<Longrightarrow> xs = [] \<or> xs = [a] \<or> xs = [a, b] \<or> xs = [a, b, c]"
  by (auto simp: prefix_Cons)

lemma method_calls:
  "m = block (map perform cs) \<Longrightarrow>
   prefix (calls_made log (m tool log)) cs
   \<and> (snd (m tool log) = Returns \<longrightarrow> calls_made log (m tool log) = cs)"
  by (simp add: performs_prefix performs_returns)

lemma map_filter_prefix:
  "prefix xs ys \<Longrightarrow> prefix (List.map_filter f xs) (List.map_filter f ys)"
  by (simp add: List.map_filter_def map_mono_prefix filter_mono_prefix)

lemma filter_prefix_empty:
  "prefix xs ys \<Longrightarrow> filter P ys = [] \<Longrightarrow> filter P xs = []"
  using filter_mono_prefix [of xs ys P] by simp

lemma list_all_prefix:
  "prefix xs ys \<Longrightarrow> list_all P ys \<Longrightarrow> list_all P xs"
  using set_mono_prefix [of xs ys] by (auto simp: list_all_iff)

lemma pinned_refs:
  "pinned ''grpc/1.54.3''" "pinned ''gtest/1.14.0''" "pinned ''libcurl/8.8.0''"
  "pinned ''openssl/3.2.1''" "pinned ''poco/1.13.2''"
  "pinned ''pkcs11provider/1.0@user/stable''" "pinned ''protobuf/3.21.12''"
  by (simp_all add: pinned_def ref_version_def fixed_version_def is_digit_def)

text \<open>Ranges, floating names and malformed versions are not pinned.\<close>

lemma not_pinned_examples:
  "\<not> pinned ''grpc/[>=1.54 <2]''" "\<not> pinned ''grpc/1..2''" "\<not> pinned ''grpc''"
  "\<not> pinned ''grpc/1.54.''" "\<not> pinned ''grpc/latest''"
  by (simp_all add: pinned_def ref_version_def fixed_version_def is_digit_def)

lemma ref_names:
  "ref_name ''grpc/1.54.3'' = ''grpc''" "ref_name ''gtest/1.14.0'' = ''gtest''"
  "ref_name ''libcurl/8.8.0'' = ''libcurl''" "ref_name ''openssl/3.2.1'' = ''openssl''"
  "ref_name ''poco/1.13.2'' = ''poco''"
  "ref_name ''pkcs11provider/1.0@user/stable'' = ''pkcs11provider''"
  "ref_name ''protobuf/3.21.12'' = ''protobuf''" "ref_name ''meson/0.64.1'' = ''meson''"
  by (simp_all add: ref_name_def)

lemma PKCS11Provider_no_cross_recipe:
  "filter cross_recipe (calls_made log (PKCS11Provider_method m self tool log)) = []"
proof (cases m)
  case P11_requirements
  show ?thesis unfolding P11_requirements PKCS11Provider_method.simps
    by (rule filter_prefix_empty [OF conjunct1 [OF method_calls [OF PKCS11Provider_requirements_body]]]) (simp add: ref_names)
next
  case P11_configure
  show ?thesis unfolding P11_configure PKCS11Provider_method.simps
    by (rule filter_prefix_empty [OF conjunct1 [OF method_calls [OF PKCS11Provider_configure_body]]]) simp
next
  case P11_build_requirements
  show ?thesis unfolding P11_build_requirements PKCS11Provider_method.simps
    by (rule filter_prefix_empty [OF conjunct1 [OF method_calls [OF PKCS11Provider_build_requirements_body]]]) (simp add: ref_names)
next
  case P11_layout
  show ?thesis unfolding P11_layout PKCS11Provider_method.simps
    by (rule filter_prefix_empty [OF conjunct1 [OF method_calls [OF PKCS11Provider_layout_body]]]) simp
next
  case P11_source
  show ?thesis unfolding P11_source PKCS11Provider_method.simps
    by (rule filter_prefix_empty [OF conjunct1 [OF method_calls [OF PKCS11Provider_source_body]]]) simp
next
  case P11_generate
  show ?thesis unfolding P11_generate PKCS11Provider_method.simps
    by (rule filter_prefix_empty [OF conjunct1 [OF method_calls [OF PKCS11Provider_generate_body]]]) simp
next
  case P11_build
  show ?thesis unfolding P11_build PKCS11Provider_method.simps
    by (rule filter_prefix_empty [OF conjunct1 [OF method_calls [OF PKCS11Provider_build_body]]]) simp
next
  case P11_package
  show ?thesis unfolding P11_package PKCS11Provider_method.simps
    by (rule filter_prefix_empty [OF conjunct1 [OF method_calls [OF PKCS11Provider_package_body]]]) simp
qed

lemma shapeI:
  "m = block (map perform cs) \<Longrightarrow> distinct cs \<Longrightarrow> length cs \<le> k \<Longrightarrow>
   \<exists>cs. distinct cs \<and> length cs \<le> k \<and> m = block (map perform cs)"
  by blast

lemma AosCoreLibCpp_method_shape:
  "\<exists>cs. distinct cs \<and> length cs \<le> 7 \<and> AosCoreLibCpp_method m self = block (map perform cs)"
proof (cases m)
  case Aos_requirements
  show ?thesis unfolding Aos_requirements AosCoreLibCpp_method.simps
    by (rule shapeI [OF AosCoreLibCpp_requirements_body]) simp_all
next
  case Aos_build_requirements
  show ?thesis unfolding Aos_build_requirements AosCoreLibCpp_method.simps
    by (rule shapeI [OF AosCoreLibCpp_build_requirements_body]) simp_all
next
  case Aos_configure
  show ?thesis unfolding Aos_configure AosCoreLibCpp_method.simps
    by (rule shapeI [OF AosCoreLibCpp_configure_body]) simp_all
qed

lemma PKCS11Provider_method_shape:
  "\<exists>cs. distinct cs \<and> length cs \<le> 6 \<and> PKCS11Provider_method m self = block (map perform cs)"
proof (cases m)
  case P11_requirements
  show ?thesis unfolding P11_requirements PKCS11Provider_method.simps
    by (rule shapeI [OF PKCS11Provider_requirements_body]) simp_all
next
  case P11_configure
  show ?thesis unfolding P11_configure PKCS11Provider_method.simps
    by (rule shapeI [OF PKCS11Provider_configure_body]) simp_all
next
  case P11_build_requirements
  show ?thesis unfolding P11_build_requirements PKCS11Provider_method.simps
    by (rule shapeI [OF PKCS11Provider_build_requirements_body]) simp_all
next
  case P11_layout
  show ?thesis unfolding P11_layout PKCS11Provider_method.simps
    by (rule shapeI [OF PKCS11Provider_layout_body]) simp_all
next
  case P11_source
  show ?thesis unfolding P11_source PKCS11Provider_method.simps
    by (rule shapeI [OF PKCS11Provider_source_body]) simp_all
next
  case P11_generate
  show ?thesis unfolding P11_generate PKCS11Provider_method.simps
    by (rule shapeI [OF PKCS11Provider_generate_body]) simp_all
next
  case P11_build
  show ?thesis unfolding P11_build PKCS11Provider_method.simps
    by (rule shapeI [OF PKCS11Provider_build_body]) simp_all
next
  case P11_package
  show ?thesis unfolding P11_package PKCS11Provider_method.simps
    by (rule shapeI [OF PKCS11Provider_package_body]) simp_all
qed

lemma nested_reference_parts:
  "ref_name ''pkcs11provider/1.0@user/stable'' = ''pkcs11provider''"
  "ref_version ''pkcs11provider/1.0@user/stable'' = ''1.0''"
  "ref_user ''pkcs11provider/1.0@user/stable'' = ''user''"
  "ref_channel ''pkcs11provider/1.0@user/stable'' = ''stable''"
  by (simp_all add: ref_name_def ref_version_def ref_user_def ref_channel_def)

lemma performs_all_return:
  "lets_return tool log cs \<Longrightarrow> block (map perform cs) tool log = (log @ cs, Returns)"
  by (induction cs arbitrary: log) (simp_all add: perform_def)

lemma calls_made_step:
  "calls_made log (block (map perform cs) tool (log @ [c])) =
     c # calls_made (log @ [c]) (block (map perform cs) tool (log @ [c]))"
proof -
  from block_performs [of cs tool "log @ [c]"] obtain n where
    "fst (block (map perform cs) tool (log @ [c])) = (log @ [c]) @ take n cs"
    by blast
  then show ?thesis by (simp add: calls_made_def)
qed

lemma performs_progress:
  "lets_return tool log (take k cs) \<Longrightarrow>
   prefix (take (Suc k) cs) (calls_made log (block (map perform cs) tool log))"
proof (induction cs arbitrary: log k)
  case Nil
  show ?case by simp
next
  case (Cons c cs)
  show ?case
  proof (cases k)
    case 0
    from block_performs_calls [of "c # cs" log tool] obtain n where
      "0 < n" "calls_made log (block (map perform (c # cs)) tool log) = take n (c # cs)"
      by blast
    then obtain n' where
      "calls_made log (block (map perform (c # cs)) tool log) = c # take n' cs"
      by (cases n) auto
    with 0 show ?thesis by simp
  next
    case (Suc j)
    with Cons.prems have r: "tool log c = Returns" and l: "lets_return tool (log @ [c]) (take j cs)"
      by simp_all
    from r have eq: "block (map perform (c # cs)) tool log = block (map perform cs) tool (log @ [c])"
      by (simp add: perform_def)
    from Cons.IH [OF l] Suc show ?thesis
      unfolding eq calls_made_step by simp
  qed
qed

lemma method_progress:
  "m = block (map perform cs) \<Longrightarrow>
   (lets_return tool log (take k cs) \<longrightarrow>
      prefix (take (Suc k) cs) (calls_made log (m tool log)))
   \<and> (lets_return tool log cs \<longrightarrow>
      m tool log = (log @ cs, Returns) \<and> calls_made log (m tool log) = cs)"
  using performs_progress [of tool log k cs] performs_all_return [of tool log cs]
  by (auto simp: calls_made_def)

section \<open>Properties of the recipes\<close>

text \<open>
  C1. \<^verbatim>\<open>PKCS11Provider.source()\<close> contacts one git remote only, the repository
  \<^verbatim>\<open>https://github.com/latchset/pkcs11-provider.git\<close>. Whatever the tool answers, the
  calls it makes are a prefix of: construct the \<^verbatim>\<open>Git\<close> helper, clone that repository
  with the arguments \<^verbatim>\<open>--branch main\<close> into the source folder, check out \<^verbatim>\<open>v1.0\<close>; no
  other remote is contacted. When the method returns, it has made exactly these three
  calls: the git operations are the clone and then the checkout, and nothing else.
  The method does make the calls: as long as the tool lets the first \<open>k\<close> of them
  return, the method goes on to the next one (so the helper is always constructed, the
  clone follows when the construction returns, the checkout when the clone returns); and
  when the tool lets all three return, the method returns, with exactly these three
  calls added to the log.
\<close>

theorem PKCS11Provider_source_clone_then_checkout:
  "prefix (calls_made log (PKCS11Provider_source (PKCS11Provider rf sf) tool log))
     [New Git,
      Git_clone ''https://github.com/latchset/pkcs11-provider.git'' [''--branch'', ''main''] sf,
      Git_checkout ''v1.0'']
   \<and> set (remotes_contacted (calls_made log (PKCS11Provider_source (PKCS11Provider rf sf) tool log)))
       \<subseteq> {''https://github.com/latchset/pkcs11-provider.git''}
   \<and> (snd (PKCS11Provider_source (PKCS11Provider rf sf) tool log) = Returns \<longrightarrow>
        calls_made log (PKCS11Provider_source (PKCS11Provider rf sf) tool log) =
          [New Git,
           Git_clone ''https://github.com/latchset/pkcs11-provider.git'' [''--branch'', ''main''] sf,
           Git_checkout ''v1.0'']
        \<and> remotes_contacted (calls_made log (PKCS11Provider_source (PKCS11Provider rf sf) tool log)) =
            [''https://github.com/latchset/pkcs11-provider.git'']
        \<and> filter git_operation (calls_made log (PKCS11Provider_source (PKCS11Provider rf sf) tool log)) =
            [Git_clone ''https://github.com/latchset/pkcs11-provider.git'' [''--branch'', ''main''] sf,
             Git_checkout ''v1.0''])
   \<and> (lets_return tool log (take k
          [New Git,
           Git_clone ''https://github.com/latchset/pkcs11-provider.git'' [''--branch'', ''main''] sf,
           Git_checkout ''v1.0'']) \<longrightarrow>
        prefix (take (Suc k)
          [New Git,
           Git_clone ''https://github.com/latchset/pkcs11-provider.git'' [''--branch'', ''main''] sf,
           Git_checkout ''v1.0''])
          (calls_made log (PKCS11Provider_source (PKCS11Provider rf sf) tool log)))
   \<and> (lets_return tool log
          [New Git,
           Git_clone ''https://github.com/latchset/pkcs11-provider.git'' [''--branch'', ''main''] sf,
           Git_checkout ''v1.0''] \<longrightarrow>
        PKCS11Provider_source (PKCS11Provider rf sf) tool log =
          (log @ [New Git,
           Git_clone ''https://github.com/latchset/pkcs11-provider.git'' [''--branch'', ''main''] sf,
           Git_checkout ''v1.0''], Returns)
        \<and> calls_made log (PKCS11Provider_source (PKCS11Provider rf sf) tool log) =
          [New Git,
           Git_clone ''https://github.com/latchset/pkcs11-provider.git'' [''--branch'', ''main''] sf,
           Git_checkout ''v1.0'']
        \<and> remotes_contacted (calls_made log (PKCS11Provider_source (PKCS11Provider rf sf) tool log)) =
            [''https://github.com/latchset/pkcs11-provider.git'']
        \<and> filter git_operation (calls_made log (PKCS11Provider_source (PKCS11Provider rf sf) tool log)) =
            [Git_clone ''https://github.com/latchset/pkcs11-provider.git'' [''--branch'', ''main''] sf,
             Git_checkout ''v1.0''])"
proof -
  let ?self = "PKCS11Provider rf sf"
  let ?full = "[New Git,
      Git_clone ''https://github.com/latchset/pkcs11-provider.git'' [''--branch'', ''main''] sf,
      Git_checkout ''v1.0'']"
  have body: "PKCS11Provider_source ?self = block (map perform ?full)"
    unfolding PKCS11Provider_source_body by (simp add: PKCS11Provider_def)
  note c = method_calls [OF body, of log tool]
  note g = method_progress [OF body, of tool log k]
  from c have p: "prefix (calls_made log (PKCS11Provider_source ?self tool log)) ?full"
    by (rule conjunct1)
  have r: "set (remotes_contacted (calls_made log (PKCS11Provider_source ?self tool log)))
       \<subseteq> {''https://github.com/latchset/pkcs11-provider.git''}"
    using prefix_three [OF p] by (auto simp: remotes_contacted_def)
  have e: "remotes_contacted (calls_made log (PKCS11Provider_source ?self tool log)) =
            [''https://github.com/latchset/pkcs11-provider.git'']
        \<and> filter git_operation (calls_made log (PKCS11Provider_source ?self tool log)) =
            [Git_clone ''https://github.com/latchset/pkcs11-provider.git'' [''--branch'', ''main''] sf,
             Git_checkout ''v1.0'']"
    if "calls_made log (PKCS11Provider_source ?self tool log) = ?full"
    unfolding that by (simp add: remotes_contacted_def)
  from c g p r e show ?thesis by blast
qed

theorem PKCS11Provider_source_clone_then_checkout_witness:
  "lets_return (\<lambda>h c. Returns :: unit outcome) []
       [New Git,
         Git_clone ''https://github.com/latchset/pkcs11-provider.git'' [''--branch'', ''main''] ''/src'',
         Git_checkout ''v1.0'']
   \<and> PKCS11Provider_source (PKCS11Provider ''/recipe'' ''/src'') (\<lambda>h c. Returns :: unit outcome) [] =
       ([] @ [New Git,
         Git_clone ''https://github.com/latchset/pkcs11-provider.git'' [''--branch'', ''main''] ''/src'',
         Git_checkout ''v1.0''], Returns)
   \<and> calls_made [] (PKCS11Provider_source (PKCS11Provider ''/recipe'' ''/src'') (\<lambda>h c. Returns :: unit outcome) []) =
       [New Git,
         Git_clone ''https://github.com/latchset/pkcs11-provider.git'' [''--branch'', ''main''] ''/src'',
         Git_checkout ''v1.0'']"
proof -
  have h: "lets_return (\<lambda>h c. Returns :: unit outcome) []
       [New Git,
        Git_clone ''https://github.com/latchset/pkcs11-provider.git'' [''--branch'', ''main''] ''/src'',
        Git_checkout ''v1.0'']"
    by simp
  from h PKCS11Provider_source_clone_then_checkout
         [of "[]" "''/recipe''" "''/src''" "\<lambda>h c. Returns :: unit outcome"]
  show ?thesis by blast
qed

text \<open>
  C2. When \<^verbatim>\<open>AosCoreLibCpp.requirements()\<close> returns, the references it has declared
  with \<^verbatim>\<open>self.requires\<close> are exactly \<^verbatim>\<open>grpc/1.54.3\<close>, \<^verbatim>\<open>gtest/1.14.0\<close>,
  \<^verbatim>\<open>libcurl/8.8.0\<close>, \<^verbatim>\<open>openssl/3.2.1\<close>, \<^verbatim>\<open>poco/1.13.2\<close> and
  \<^verbatim>\<open>pkcs11provider/1.0@user/stable\<close>, and it has declared no tool requirement; when
  \<^verbatim>\<open>build_requirements()\<close> returns, the tool requirements it has declared are exactly
  \<^verbatim>\<open>grpc/1.54.3\<close>, \<^verbatim>\<open>gtest/1.14.0\<close> and \<^verbatim>\<open>protobuf/3.21.12\<close>, and it has declared no
  library requirement. Whatever the tool answers, what either method declares is a prefix
  of its list, and every declared reference has a pinned version.
  The same holds of the declarations of every kind together (\<^verbatim>\<open>requires\<close>,
  \<^verbatim>\<open>tool_requires\<close>, \<^verbatim>\<open>build_requires\<close>), and of all the calls: the calls of
  \<^verbatim>\<open>requirements()\<close> are a prefix of the five requirements, the export command and the
  sixth requirement, those of \<^verbatim>\<open>build_requirements()\<close> a prefix of the three tool
  requirements, and nothing else is called. Each method does make its calls: as long as
  the tool lets the first \<open>k\<close> of them return, the method goes on to the next one; and
  when the tool lets all of them return, the method returns, with exactly its calls added
  to the log and exactly the listed references declared.
\<close>

theorem AosCoreLibCpp_declares_pinned_requirements:
  "(snd (AosCoreLibCpp_requirements self tool log) = Returns \<longrightarrow>
      required (calls_made log (AosCoreLibCpp_requirements self tool log)) =
        [''grpc/1.54.3'',
         ''gtest/1.14.0'',
         ''libcurl/8.8.0'',
         ''openssl/3.2.1'',
         ''poco/1.13.2'',
         ''pkcs11provider/1.0@user/stable'']
      \<and> tool_required (calls_made log (AosCoreLibCpp_requirements self tool log)) = [])
   \<and> (snd (AosCoreLibCpp_build_requirements self tool log) = Returns \<longrightarrow>
      tool_required (calls_made log (AosCoreLibCpp_build_requirements self tool log)) =
        [''grpc/1.54.3'',
         ''gtest/1.14.0'',
         ''protobuf/3.21.12'']
      \<and> required (calls_made log (AosCoreLibCpp_build_requirements self tool log)) = [])
   \<and> prefix (required (calls_made log (AosCoreLibCpp_requirements self tool log)))
        [''grpc/1.54.3'',
         ''gtest/1.14.0'',
         ''libcurl/8.8.0'',
         ''openssl/3.2.1'',
         ''poco/1.13.2'',
         ''pkcs11provider/1.0@user/stable'']
   \<and> prefix (tool_required (calls_made log (AosCoreLibCpp_build_requirements self tool log)))
        [''grpc/1.54.3'',
         ''gtest/1.14.0'',
         ''protobuf/3.21.12'']
   \<and> list_all pinned (required (calls_made log (AosCoreLibCpp_requirements self tool log)))
   \<and> list_all pinned (tool_required (calls_made log (AosCoreLibCpp_build_requirements self tool log)))
   \<and> prefix (calls_made log (AosCoreLibCpp_requirements self tool log))
          [Requires ''grpc/1.54.3'',
           Requires ''gtest/1.14.0'',
           Requires ''libcurl/8.8.0'',
           Requires ''openssl/3.2.1'',
           Requires ''poco/1.13.2'',
           Run (''conan export '' @ path_join (recipe_folder self) ''pkcs11provider-1.0.py''
                @ '' --user user --channel stable'') (recipe_folder self),
           Requires ''pkcs11provider/1.0@user/stable'']
   \<and> prefix (calls_made log (AosCoreLibCpp_build_requirements self tool log))
          [Tool_requires ''grpc/1.54.3'',
           Tool_requires ''gtest/1.14.0'',
           Tool_requires ''protobuf/3.21.12'']
   \<and> list_all pinned (declared (calls_made log (AosCoreLibCpp_requirements self tool log)))
   \<and> list_all pinned (declared (calls_made log (AosCoreLibCpp_build_requirements self tool log)))
   \<and> (snd (AosCoreLibCpp_requirements self tool log) = Returns \<longrightarrow>
      calls_made log (AosCoreLibCpp_requirements self tool log) =
          [Requires ''grpc/1.54.3'',
           Requires ''gtest/1.14.0'',
           Requires ''libcurl/8.8.0'',
           Requires ''openssl/3.2.1'',
           Requires ''poco/1.13.2'',
           Run (''conan export '' @ path_join (recipe_folder self) ''pkcs11provider-1.0.py''
                @ '' --user user --channel stable'') (recipe_folder self),
           Requires ''pkcs11provider/1.0@user/stable'']
      \<and> declared (calls_made log (AosCoreLibCpp_requirements self tool log)) =
        [''grpc/1.54.3'',
         ''gtest/1.14.0'',
         ''libcurl/8.8.0'',
         ''openssl/3.2.1'',
         ''poco/1.13.2'',
         ''pkcs11provider/1.0@user/stable''])
   \<and> (snd (AosCoreLibCpp_build_requirements self tool log) = Returns \<longrightarrow>
      calls_made log (AosCoreLibCpp_build_requirements self tool log) =
          [Tool_requires ''grpc/1.54.3'',
           Tool_requires ''gtest/1.14.0'',
           Tool_requires ''protobuf/3.21.12'']
      \<and> declared (calls_made log (AosCoreLibCpp_build_requirements self tool log)) =
        [''grpc/1.54.3'',
         ''gtest/1.14.0'',
         ''protobuf/3.21.12''])
   \<and> (lets_return tool log (take k
          [Requires ''grpc/1.54.3'',
           Requires ''gtest/1.14.0'',
           Requires ''libcurl/8.8.0'',
           Requires ''openssl/3.2.1'',
           Requires ''poco/1.13.2'',
           Run (''conan export '' @ path_join (recipe_folder self) ''pkcs11provider-1.0.py''
                @ '' --user user --channel stable'') (recipe_folder self),
           Requires ''pkcs11provider/1.0@user/stable'']) \<longrightarrow>
        prefix (take (Suc k)
          [Requires ''grpc/1.54.3'',
           Requires ''gtest/1.14.0'',
           Requires ''libcurl/8.8.0'',
           Requires ''openssl/3.2.1'',
           Requires ''poco/1.13.2'',
           Run (''conan export '' @ path_join (recipe_folder self) ''pkcs11provider-1.0.py''
                @ '' --user user --channel stable'') (recipe_folder self),
           Requires ''pkcs11provider/1.0@user/stable''])
          (calls_made log (AosCoreLibCpp_requirements self tool log)))
   \<and> (lets_return tool log (take k
          [Tool_requires ''grpc/1.54.3'',
           Tool_requires ''gtest/1.14.0'',
           Tool_requires ''protobuf/3.21.12'']) \<longrightarrow>
        prefix (take (Suc k)
          [Tool_requires ''grpc/1.54.3'',
           Tool_requires ''gtest/1.14.0'',
           Tool_requires ''protobuf/3.21.12''])
          (calls_made log (AosCoreLibCpp_build_requirements self tool log)))
   \<and> (lets_return tool log
          [Requires ''grpc/1.54.3'',
           Requires ''gtest/1.14.0'',
           Requires ''libcurl/8.8.0'',
           Requires ''openssl/3.2.1'',
           Requires ''poco/1.13.2'',
           Run (''conan export '' @ path_join (recipe_folder self) ''pkcs11provider-1.0.py''
                @ '' --user user --channel stable'') (recipe_folder self),
           Requires ''pkcs11provider/1.0@user/stable''] \<longrightarrow>
      AosCoreLibCpp_requirements self tool log =
        (log @ [Requires ''grpc/1.54.3'',
           Requires ''gtest/1.14.0'',
           Requires ''libcurl/8.8.0'',
           Requires ''openssl/3.2.1'',
           Requires ''poco/1.13.2'',
           Run (''conan export '' @ path_join (recipe_folder self) ''pkcs11provider-1.0.py''
                @ '' --user user --channel stable'') (recipe_folder self),
           Requires ''pkcs11provider/1.0@user/stable''], Returns)
      \<and> declared (calls_made log (AosCoreLibCpp_requirements self tool log)) =
        [''grpc/1.54.3'',
         ''gtest/1.14.0'',
         ''libcurl/8.8.0'',
         ''openssl/3.2.1'',
         ''poco/1.13.2'',
         ''pkcs11provider/1.0@user/stable'']
      \<and> required (calls_made log (AosCoreLibCpp_requirements self tool log)) =
        [''grpc/1.54.3'',
         ''gtest/1.14.0'',
         ''libcurl/8.8.0'',
         ''openssl/3.2.1'',
         ''poco/1.13.2'',
         ''pkcs11provider/1.0@user/stable'']
      \<and> tool_required (calls_made log (AosCoreLibCpp_requirements self tool log)) = [])
   \<and> (lets_return tool log
          [Tool_requires ''grpc/1.54.3'',
           Tool_requires ''gtest/1.14.0'',
           Tool_requires ''protobuf/3.21.12''] \<longrightarrow>
      AosCoreLibCpp_build_requirements self tool log =
        (log @ [Tool_requires ''grpc/1.54.3'',
           Tool_requires ''gtest/1.14.0'',
           Tool_requires ''protobuf/3.21.12''], Returns)
      \<and> declared (calls_made log (AosCoreLibCpp_build_requirements self tool log)) =
        [''grpc/1.54.3'',
         ''gtest/1.14.0'',
         ''protobuf/3.21.12'']
      \<and> tool_required (calls_made log (AosCoreLibCpp_build_requirements self tool log)) =
        [''grpc/1.54.3'',
         ''gtest/1.14.0'',
         ''protobuf/3.21.12'']
      \<and> required (calls_made log (AosCoreLibCpp_build_requirements self tool log)) = [])"
proof -
  let ?r = "AosCoreLibCpp_requirements self tool log"
  let ?b = "AosCoreLibCpp_build_requirements self tool log"
  let ?refs = "[''grpc/1.54.3'', ''gtest/1.14.0'', ''libcurl/8.8.0'', ''openssl/3.2.1'',
         ''poco/1.13.2'', ''pkcs11provider/1.0@user/stable'']"
  let ?tools = "[''grpc/1.54.3'', ''gtest/1.14.0'', ''protobuf/3.21.12'']"
  let ?fr = "[Requires ''grpc/1.54.3'',
           Requires ''gtest/1.14.0'',
           Requires ''libcurl/8.8.0'',
           Requires ''openssl/3.2.1'',
           Requires ''poco/1.13.2'',
           Run (''conan export '' @ path_join (recipe_folder self) ''pkcs11provider-1.0.py''
                @ '' --user user --channel stable'') (recipe_folder self),
           Requires ''pkcs11provider/1.0@user/stable'']"
  let ?fb = "[Tool_requires ''grpc/1.54.3'',
           Tool_requires ''gtest/1.14.0'',
           Tool_requires ''protobuf/3.21.12'']"
  note r = method_calls [OF AosCoreLibCpp_requirements_body, of log self tool]
  note b = method_calls [OF AosCoreLibCpp_build_requirements_body, of log self tool]
  note gr = method_progress [OF AosCoreLibCpp_requirements_body, of tool log k self]
  note gb = method_progress [OF AosCoreLibCpp_build_requirements_body, of tool log k self]
  have rr: "required (calls_made log ?r) = ?refs \<and> tool_required (calls_made log ?r) = []
              \<and> declared (calls_made log ?r) = ?refs"
    if "calls_made log ?r = ?fr"
    unfolding that by (simp add: required_def tool_required_def declared_def)
  have bb: "tool_required (calls_made log ?b) = ?tools \<and> required (calls_made log ?b) = []
              \<and> declared (calls_made log ?b) = ?tools"
    if "calls_made log ?b = ?fb"
    unfolding that by (simp add: required_def tool_required_def declared_def)
  from r have pr: "prefix (calls_made log ?r) ?fr" by (rule conjunct1)
  from b have pb: "prefix (calls_made log ?b) ?fb" by (rule conjunct1)
  have r2: "prefix (required (calls_made log ?r)) ?refs"
    using map_filter_prefix [OF pr, of requires_arg]
    by (simp add: required_def)
  have b2: "prefix (tool_required (calls_made log ?b)) ?tools"
    using map_filter_prefix [OF pb, of tool_requires_arg]
    by (simp add: tool_required_def)
  have r3: "list_all pinned (required (calls_made log ?r))"
    by (rule list_all_prefix [OF r2]) (simp add: pinned_refs)
  have b3: "list_all pinned (tool_required (calls_made log ?b))"
    by (rule list_all_prefix [OF b2]) (simp add: pinned_refs)
  have r4: "prefix (declared (calls_made log ?r)) ?refs"
    using map_filter_prefix [OF pr, of declared_arg]
    by (simp add: declared_def)
  have b4: "prefix (declared (calls_made log ?b)) ?tools"
    using map_filter_prefix [OF pb, of declared_arg]
    by (simp add: declared_def)
  have r5: "list_all pinned (declared (calls_made log ?r))"
    by (rule list_all_prefix [OF r4]) (simp add: pinned_refs)
  have b5: "list_all pinned (declared (calls_made log ?b))"
    by (rule list_all_prefix [OF b4]) (simp add: pinned_refs)
  have R1: "snd ?r = Returns \<longrightarrow>
      required (calls_made log ?r) = ?refs \<and> tool_required (calls_made log ?r) = []"
    using r rr by blast
  have B1: "snd ?b = Returns \<longrightarrow>
      tool_required (calls_made log ?b) = ?tools \<and> required (calls_made log ?b) = []"
    using b bb by blast
  have R6: "snd ?r = Returns \<longrightarrow>
      calls_made log ?r = ?fr \<and> declared (calls_made log ?r) = ?refs"
    using r rr by blast
  have B6: "snd ?b = Returns \<longrightarrow>
      calls_made log ?b = ?fb \<and> declared (calls_made log ?b) = ?tools"
    using b bb by blast
  have R7: "lets_return tool log (take k ?fr) \<longrightarrow>
      prefix (take (Suc k) ?fr) (calls_made log ?r)"
    using gr by (rule conjunct1)
  have B7: "lets_return tool log (take k ?fb) \<longrightarrow>
      prefix (take (Suc k) ?fb) (calls_made log ?b)"
    using gb by (rule conjunct1)
  have R8: "lets_return tool log ?fr \<longrightarrow>
      ?r = (log @ ?fr, Returns) \<and> declared (calls_made log ?r) = ?refs
      \<and> required (calls_made log ?r) = ?refs \<and> tool_required (calls_made log ?r) = []"
    using gr rr by blast
  have B8: "lets_return tool log ?fb \<longrightarrow>
      ?b = (log @ ?fb, Returns) \<and> declared (calls_made log ?b) = ?tools
      \<and> tool_required (calls_made log ?b) = ?tools \<and> required (calls_made log ?b) = []"
    using gb bb by blast
  from R1 B1 r2 b2 r3 b3 pr pb r5 b5 R6 B6 R7 B7 R8 B8 show ?thesis
    by (intro conjI)
qed

theorem AosCoreLibCpp_declares_pinned_requirements_witness:
  "lets_return (\<lambda>h c. Returns :: unit outcome) []
       [Requires ''grpc/1.54.3'',
         Requires ''gtest/1.14.0'',
         Requires ''libcurl/8.8.0'',
         Requires ''openssl/3.2.1'',
         Requires ''poco/1.13.2'',
         Run ''conan export /recipe/pkcs11provider-1.0.py --user user --channel stable'' ''/recipe'',
         Requires ''pkcs11provider/1.0@user/stable'']
   \<and> lets_return (\<lambda>h c. Returns :: unit outcome) []
       [Tool_requires ''grpc/1.54.3'',
         Tool_requires ''gtest/1.14.0'',
         Tool_requires ''protobuf/3.21.12'']
   \<and> AosCoreLibCpp_requirements (AosCoreLibCpp ''/recipe'' ''/src'') (\<lambda>h c. Returns :: unit outcome) [] =
       ([] @ [Requires ''grpc/1.54.3'',
         Requires ''gtest/1.14.0'',
         Requires ''libcurl/8.8.0'',
         Requires ''openssl/3.2.1'',
         Requires ''poco/1.13.2'',
         Run ''conan export /recipe/pkcs11provider-1.0.py --user user --channel stable'' ''/recipe'',
         Requires ''pkcs11provider/1.0@user/stable''], Returns)
   \<and> declared (calls_made [] (AosCoreLibCpp_requirements (AosCoreLibCpp ''/recipe'' ''/src'') (\<lambda>h c. Returns :: unit outcome) [])) =
        [''grpc/1.54.3'',
         ''gtest/1.14.0'',
         ''libcurl/8.8.0'',
         ''openssl/3.2.1'',
         ''poco/1.13.2'',
         ''pkcs11provider/1.0@user/stable'']
   \<and> AosCoreLibCpp_build_requirements (AosCoreLibCpp ''/recipe'' ''/src'')
          (\<lambda>h c. Returns :: unit outcome) [] =
       ([] @ [Tool_requires ''grpc/1.54.3'',
         Tool_requires ''gtest/1.14.0'',
         Tool_requires ''protobuf/3.21.12''], Returns)
   \<and> declared (calls_made [] (AosCoreLibCpp_build_requirements (AosCoreLibCpp ''/recipe'' ''/src'')
          (\<lambda>h c. Returns :: unit outcome) [])) =
        [''grpc/1.54.3'',
         ''gtest/1.14.0'',
         ''protobuf/3.21.12'']"
proof -
  let ?t = "\<lambda>(h :: call list) (c :: call). Returns :: unit outcome"
  let ?a = "AosCoreLibCpp ''/recipe'' ''/src''"
  have p: "recipe_folder ?a = ''/recipe''"
    "path_join ''/recipe'' ''pkcs11provider-1.0.py'' = ''/recipe/pkcs11provider-1.0.py''"
    "''conan export '' @ ''/recipe/pkcs11provider-1.0.py'' @ '' --user user --channel stable''
       = ''conan export /recipe/pkcs11provider-1.0.py --user user --channel stable''"
    by (simp_all add: AosCoreLibCpp_def path_join_def)
  have h1: "lets_return ?t []
       [Requires ''grpc/1.54.3'',
         Requires ''gtest/1.14.0'',
         Requires ''libcurl/8.8.0'',
         Requires ''openssl/3.2.1'',
         Requires ''poco/1.13.2'',
         Run ''conan export /recipe/pkcs11provider-1.0.py --user user --channel stable'' ''/recipe'',
         Requires ''pkcs11provider/1.0@user/stable'']"
    by simp
  have h2: "lets_return ?t []
       [Tool_requires ''grpc/1.54.3'',
         Tool_requires ''gtest/1.14.0'',
         Tool_requires ''protobuf/3.21.12'']"
    by simp
  note t = AosCoreLibCpp_declares_pinned_requirements [of ?a ?t "[]", unfolded p]
  from h1 h2 t show ?thesis by blast
qed

text \<open>
  C3. The two recipes meet in \<^verbatim>\<open>AosCoreLibCpp.requirements()\<close> only. When that method
  returns, the calls by which it reaches the nested recipe are, in this order, the run of
  \<^verbatim>\<open>conan export <recipe folder>/pkcs11provider-1.0.py --user user --channel stable\<close>
  in the recipe folder and the requirement \<^verbatim>\<open>pkcs11provider/1.0@user/stable\<close>.
  No call of \<^verbatim>\<open>build_requirements()\<close> or \<^verbatim>\<open>configure()\<close> of \<^verbatim>\<open>AosCoreLibCpp\<close>, and
  no call of any method of \<^verbatim>\<open>PKCS11Provider\<close>, runs a command or requires the nested
  package, whatever the tool answers.
  And \<^verbatim>\<open>requirements()\<close> does reach the nested recipe: as long as the tool lets its
  first \<open>k\<close> calls return, it goes on to the next one, and when the tool lets all its
  calls return, it returns having run the export and then declared the requirement.
\<close>

theorem recipes_interact_only_in_requirements:
  "(snd (AosCoreLibCpp_requirements self tool log) = Returns \<longrightarrow>
      filter cross_recipe (calls_made log (AosCoreLibCpp_requirements self tool log)) =
        [Run (''conan export '' @ path_join (recipe_folder self) ''pkcs11provider-1.0.py''
                @ '' --user user --channel stable'') (recipe_folder self),
         Requires ''pkcs11provider/1.0@user/stable''])
   \<and> filter cross_recipe (calls_made log (AosCoreLibCpp_build_requirements self tool log)) = []
   \<and> filter cross_recipe (calls_made log (AosCoreLibCpp_configure self tool log)) = []
   \<and> filter cross_recipe (calls_made log' (PKCS11Provider_method m' self' tool log')) = []
   \<and> (lets_return tool log (take k
          [Requires ''grpc/1.54.3'',
           Requires ''gtest/1.14.0'',
           Requires ''libcurl/8.8.0'',
           Requires ''openssl/3.2.1'',
           Requires ''poco/1.13.2'',
           Run (''conan export '' @ path_join (recipe_folder self) ''pkcs11provider-1.0.py''
                @ '' --user user --channel stable'') (recipe_folder self),
           Requires ''pkcs11provider/1.0@user/stable'']) \<longrightarrow>
        prefix (take (Suc k)
          [Requires ''grpc/1.54.3'',
           Requires ''gtest/1.14.0'',
           Requires ''libcurl/8.8.0'',
           Requires ''openssl/3.2.1'',
           Requires ''poco/1.13.2'',
           Run (''conan export '' @ path_join (recipe_folder self) ''pkcs11provider-1.0.py''
                @ '' --user user --channel stable'') (recipe_folder self),
           Requires ''pkcs11provider/1.0@user/stable''])
          (calls_made log (AosCoreLibCpp_requirements self tool log)))
   \<and> (lets_return tool log
          [Requires ''grpc/1.54.3'',
           Requires ''gtest/1.14.0'',
           Requires ''libcurl/8.8.0'',
           Requires ''openssl/3.2.1'',
           Requires ''poco/1.13.2'',
           Run (''conan export '' @ path_join (recipe_folder self) ''pkcs11provider-1.0.py''
                @ '' --user user --channel stable'') (recipe_folder self),
           Requires ''pkcs11provider/1.0@user/stable''] \<longrightarrow>
      AosCoreLibCpp_requirements self tool log =
        (log @ [Requires ''grpc/1.54.3'',
           Requires ''gtest/1.14.0'',
           Requires ''libcurl/8.8.0'',
           Requires ''openssl/3.2.1'',
           Requires ''poco/1.13.2'',
           Run (''conan export '' @ path_join (recipe_folder self) ''pkcs11provider-1.0.py''
                @ '' --user user --channel stable'') (recipe_folder self),
           Requires ''pkcs11provider/1.0@user/stable''], Returns)
      \<and> filter cross_recipe (calls_made log (AosCoreLibCpp_requirements self tool log)) =
        [Run (''conan export '' @ path_join (recipe_folder self) ''pkcs11provider-1.0.py''
                @ '' --user user --channel stable'') (recipe_folder self),
         Requires ''pkcs11provider/1.0@user/stable''])"
proof -
  let ?r = "AosCoreLibCpp_requirements self tool log"
  let ?fr = "[Requires ''grpc/1.54.3'',
           Requires ''gtest/1.14.0'',
           Requires ''libcurl/8.8.0'',
           Requires ''openssl/3.2.1'',
           Requires ''poco/1.13.2'',
           Run (''conan export '' @ path_join (recipe_folder self) ''pkcs11provider-1.0.py''
                @ '' --user user --channel stable'') (recipe_folder self),
           Requires ''pkcs11provider/1.0@user/stable'']"
  let ?cross = "[Run (''conan export '' @ path_join (recipe_folder self) ''pkcs11provider-1.0.py''
                @ '' --user user --channel stable'') (recipe_folder self),
         Requires ''pkcs11provider/1.0@user/stable'']"
  note m = method_calls [OF AosCoreLibCpp_requirements_body, of log self tool]
  note g = method_progress [OF AosCoreLibCpp_requirements_body, of tool log k self]
  have x: "filter cross_recipe (calls_made log ?r) = ?cross"
    if "calls_made log ?r = ?fr"
    unfolding that by (simp add: ref_names)
  have r: "snd ?r = Returns \<longrightarrow> filter cross_recipe (calls_made log ?r) = ?cross"
    using m x by blast
  have b: "filter cross_recipe (calls_made log (AosCoreLibCpp_build_requirements self tool log)) = []"
    by (rule filter_prefix_empty [OF conjunct1 [OF method_calls [OF AosCoreLibCpp_build_requirements_body]]])
       (simp add: ref_names)
  have c: "filter cross_recipe (calls_made log (AosCoreLibCpp_configure self tool log)) = []"
    by (rule filter_prefix_empty [OF conjunct1 [OF method_calls [OF AosCoreLibCpp_configure_body]]])
       simp
  have g1: "lets_return tool log (take k ?fr) \<longrightarrow>
      prefix (take (Suc k) ?fr) (calls_made log ?r)"
    using g by (rule conjunct1)
  have g2: "lets_return tool log ?fr \<longrightarrow>
      ?r = (log @ ?fr, Returns) \<and> filter cross_recipe (calls_made log ?r) = ?cross"
    using g x by blast
  from r b c PKCS11Provider_no_cross_recipe [of log' m' self' tool] g1 g2 show ?thesis
    by (intro conjI)
qed

theorem recipes_interact_only_in_requirements_witness:
  "lets_return (\<lambda>h c. Returns :: unit outcome) []
       [Requires ''grpc/1.54.3'',
         Requires ''gtest/1.14.0'',
         Requires ''libcurl/8.8.0'',
         Requires ''openssl/3.2.1'',
         Requires ''poco/1.13.2'',
         Run ''conan export /recipe/pkcs11provider-1.0.py --user user --channel stable'' ''/recipe'',
         Requires ''pkcs11provider/1.0@user/stable'']
   \<and> AosCoreLibCpp_requirements (AosCoreLibCpp ''/recipe'' ''/src'')
          (\<lambda>h c. Returns :: unit outcome) [] =
       ([] @ [Requires ''grpc/1.54.3'',
         Requires ''gtest/1.14.0'',
         Requires ''libcurl/8.8.0'',
         Requires ''openssl/3.2.1'',
         Requires ''poco/1.13.2'',
         Run ''conan export /recipe/pkcs11provider-1.0.py --user user --channel stable'' ''/recipe'',
         Requires ''pkcs11provider/1.0@user/stable''], Returns)
   \<and> filter cross_recipe (calls_made [] (AosCoreLibCpp_requirements (AosCoreLibCpp ''/recipe'' ''/src'')
          (\<lambda>h c. Returns :: unit outcome) [])) =
        [Run ''conan export /recipe/pkcs11provider-1.0.py --user user --channel stable'' ''/recipe'',
         Requires ''pkcs11provider/1.0@user/stable'']"
proof -
  have p: "recipe_folder (AosCoreLibCpp ''/recipe'' ''/src'') = ''/recipe''"
    "path_join ''/recipe'' ''pkcs11provider-1.0.py'' = ''/recipe/pkcs11provider-1.0.py''"
    "''conan export '' @ ''/recipe/pkcs11provider-1.0.py'' @ '' --user user --channel stable''
       = ''conan export /recipe/pkcs11provider-1.0.py --user user --channel stable''"
    by (simp_all add: AosCoreLibCpp_def path_join_def)
  have h: "lets_return (\<lambda>h c. Returns :: unit outcome) []
       [Requires ''grpc/1.54.3'',
         Requires ''gtest/1.14.0'',
         Requires ''libcurl/8.8.0'',
         Requires ''openssl/3.2.1'',
         Requires ''poco/1.13.2'',
         Run ''conan export /recipe/pkcs11provider-1.0.py --user user --channel stable'' ''/recipe'',
         Requires ''pkcs11provider/1.0@user/stable'']"
    by simp
  note t = recipes_interact_only_in_requirements
         [of "AosCoreLibCpp ''/recipe'' ''/src''" "\<lambda>h c. Returns :: unit outcome" "[]", unfolded p]
  from h t show ?thesis by blast
qed

text \<open>
  C4. \<^verbatim>\<open>AosCoreLibCpp.configure()\<close> sets two options and does nothing else. Whatever
  the tool answers, the calls it makes are a prefix of: set the option \<^verbatim>\<open>no_dso\<close> of
  \<^verbatim>\<open>openssl\<close> to \<open>False\<close>, set the option \<^verbatim>\<open>shared\<close> of \<^verbatim>\<open>openssl\<close> to \<open>True\<close>;
  it declares no requirement of any kind. When it returns, it has made exactly these two
  assignments. The method does make them: the first assignment is always made, the
  second as soon as the first returns, and when the tool lets both return, the method
  returns, with exactly these two calls added to the log.
\<close>

theorem AosCoreLibCpp_configure_sets_two_options:
  "prefix (calls_made log (AosCoreLibCpp_configure self tool log))
     [Set_option ''openssl'' ''no_dso'' False, Set_option ''openssl'' ''shared'' True]
   \<and> required (calls_made log (AosCoreLibCpp_configure self tool log)) = []
   \<and> tool_required (calls_made log (AosCoreLibCpp_configure self tool log)) = []
   \<and> (snd (AosCoreLibCpp_configure self tool log) = Returns \<longrightarrow>
        calls_made log (AosCoreLibCpp_configure self tool log) =
          [Set_option ''openssl'' ''no_dso'' False, Set_option ''openssl'' ''shared'' True])
   \<and> declared (calls_made log (AosCoreLibCpp_configure self tool log)) = []
   \<and> (lets_return tool log (take k
          [Set_option ''openssl'' ''no_dso'' False,
           Set_option ''openssl'' ''shared'' True]) \<longrightarrow>
        prefix (take (Suc k)
          [Set_option ''openssl'' ''no_dso'' False,
           Set_option ''openssl'' ''shared'' True])
          (calls_made log (AosCoreLibCpp_configure self tool log)))
   \<and> (lets_return tool log
          [Set_option ''openssl'' ''no_dso'' False,
           Set_option ''openssl'' ''shared'' True] \<longrightarrow>
        AosCoreLibCpp_configure self tool log =
          (log @ [Set_option ''openssl'' ''no_dso'' False,
           Set_option ''openssl'' ''shared'' True], Returns)
        \<and> calls_made log (AosCoreLibCpp_configure self tool log) =
          [Set_option ''openssl'' ''no_dso'' False,
           Set_option ''openssl'' ''shared'' True])"
proof -
  note c = method_calls [OF AosCoreLibCpp_configure_body, of log self tool]
  note g = method_progress [OF AosCoreLibCpp_configure_body, of tool log k self]
  from c have p: "prefix (calls_made log (AosCoreLibCpp_configure self tool log))
     [Set_option ''openssl'' ''no_dso'' False, Set_option ''openssl'' ''shared'' True]"
    by (rule conjunct1)
  have r: "required (calls_made log (AosCoreLibCpp_configure self tool log)) = []"
    using map_filter_prefix [OF p, of requires_arg]
    by (simp add: required_def)
  have t: "tool_required (calls_made log (AosCoreLibCpp_configure self tool log)) = []"
    using map_filter_prefix [OF p, of tool_requires_arg]
    by (simp add: tool_required_def)
  have d: "declared (calls_made log (AosCoreLibCpp_configure self tool log)) = []"
    using map_filter_prefix [OF p, of declared_arg]
    by (simp add: declared_def)
  from c g r t d show ?thesis by blast
qed

theorem AosCoreLibCpp_configure_sets_two_options_witness:
  "lets_return (\<lambda>h c. Returns :: unit outcome) []
       [Set_option ''openssl'' ''no_dso'' False,
         Set_option ''openssl'' ''shared'' True]
   \<and> AosCoreLibCpp_configure (AosCoreLibCpp ''/recipe'' ''/src'')
          (\<lambda>h c. Returns :: unit outcome) [] =
       ([] @ [Set_option ''openssl'' ''no_dso'' False,
         Set_option ''openssl'' ''shared'' True], Returns)
   \<and> calls_made [] (AosCoreLibCpp_configure (AosCoreLibCpp ''/recipe'' ''/src'')
          (\<lambda>h c. Returns :: unit outcome) []) =
       [Set_option ''openssl'' ''no_dso'' False,
         Set_option ''openssl'' ''shared'' True]"
proof -
  have h: "lets_return (\<lambda>h c. Returns :: unit outcome) []
       [Set_option ''openssl'' ''no_dso'' False,
         Set_option ''openssl'' ''shared'' True]"
    by simp
  from h AosCoreLibCpp_configure_sets_two_options
         [of "[]" "AosCoreLibCpp ''/recipe'' ''/src''" "\<lambda>h c. Returns :: unit outcome"]
  show ?thesis by blast
qed

text \<open>
  C5. \<^verbatim>\<open>PKCS11Provider.build()\<close> constructs the \<^verbatim>\<open>Meson\<close> helper and calls its
  \<^verbatim>\<open>configure()\<close> and then its \<^verbatim>\<open>build()\<close>; \<^verbatim>\<open>PKCS11Provider.package()\<close> constructs
  the \<^verbatim>\<open>Meson\<close> helper and calls its \<^verbatim>\<open>install()\<close>. Whatever the tool answers, each
  method makes a prefix of these calls and no other call (no command is run, no file
  is patched); when it returns it has made exactly these calls. Each method does make
  its calls: as long as the tool lets the first \<open>k\<close> of them return, the method goes on
  to the next one, and when the tool lets all of them return, the method returns, with
  exactly these calls added to the log.
\<close>

theorem PKCS11Provider_built_with_meson_only:
  "prefix (calls_made log (PKCS11Provider_build self tool log))
     [New Meson, Meson_configure, Meson_build]
   \<and> (snd (PKCS11Provider_build self tool log) = Returns \<longrightarrow>
        calls_made log (PKCS11Provider_build self tool log) =
          [New Meson, Meson_configure, Meson_build])
   \<and> prefix (calls_made log' (PKCS11Provider_package self tool log'))
       [New Meson, Meson_install]
   \<and> (snd (PKCS11Provider_package self tool log') = Returns \<longrightarrow>
        calls_made log' (PKCS11Provider_package self tool log') =
          [New Meson, Meson_install])
   \<and> (lets_return tool log (take k
          [New Meson,
           Meson_configure,
           Meson_build]) \<longrightarrow>
        prefix (take (Suc k)
          [New Meson,
           Meson_configure,
           Meson_build])
          (calls_made log (PKCS11Provider_build self tool log)))
   \<and> (lets_return tool log' (take k'
          [New Meson,
           Meson_install]) \<longrightarrow>
        prefix (take (Suc k')
          [New Meson,
           Meson_install])
          (calls_made log' (PKCS11Provider_package self tool log')))
   \<and> (lets_return tool log [New Meson, Meson_configure, Meson_build] \<longrightarrow>
        PKCS11Provider_build self tool log =
          (log @ [New Meson, Meson_configure, Meson_build], Returns)
        \<and> calls_made log (PKCS11Provider_build self tool log) =
          [New Meson, Meson_configure, Meson_build])
   \<and> (lets_return tool log' [New Meson, Meson_install] \<longrightarrow>
        PKCS11Provider_package self tool log' =
          (log' @ [New Meson, Meson_install], Returns)
        \<and> calls_made log' (PKCS11Provider_package self tool log') =
          [New Meson, Meson_install])"
  using method_calls [OF PKCS11Provider_build_body, of log self tool]
        method_calls [OF PKCS11Provider_package_body, of log' self tool]
        method_progress [OF PKCS11Provider_build_body, of tool log k self]
        method_progress [OF PKCS11Provider_package_body, of tool log' k' self]
  by blast

theorem PKCS11Provider_built_with_meson_only_witness:
  "lets_return (\<lambda>h c. Returns :: unit outcome) [] [New Meson, Meson_configure, Meson_build]
   \<and> lets_return (\<lambda>h c. Returns :: unit outcome) [New Meson, Meson_configure, Meson_build]
       [New Meson, Meson_install]
   \<and> PKCS11Provider_build (PKCS11Provider ''/recipe'' ''/src'')
          (\<lambda>h c. Returns :: unit outcome) [] =
       ([] @ [New Meson, Meson_configure, Meson_build], Returns)
   \<and> calls_made [] (PKCS11Provider_build (PKCS11Provider ''/recipe'' ''/src'')
          (\<lambda>h c. Returns :: unit outcome) []) =
       [New Meson, Meson_configure, Meson_build]
   \<and> PKCS11Provider_package (PKCS11Provider ''/recipe'' ''/src'')
          (\<lambda>h c. Returns :: unit outcome) [New Meson, Meson_configure, Meson_build] =
       ([New Meson, Meson_configure, Meson_build] @ [New Meson, Meson_install], Returns)
   \<and> calls_made [New Meson, Meson_configure, Meson_build] (PKCS11Provider_package (PKCS11Provider ''/recipe'' ''/src'')
          (\<lambda>h c. Returns :: unit outcome) [New Meson, Meson_configure, Meson_build]) =
       [New Meson, Meson_install]"
proof -
  have h1: "lets_return (\<lambda>h c. Returns :: unit outcome) [] [New Meson, Meson_configure, Meson_build]"
    by simp
  have h2: "lets_return (\<lambda>h c. Returns :: unit outcome) [New Meson, Meson_configure, Meson_build]
       [New Meson, Meson_install]"
    by simp
  from h1 h2 PKCS11Provider_built_with_meson_only
         [of "[]" "PKCS11Provider ''/recipe'' ''/src''" "\<lambda>h c. Returns :: unit outcome"
             "[New Meson, Meson_configure, Meson_build]"]
  show ?thesis by blast
qed

text \<open>
  C6. Neither recipe handles an error. For every method of \<^verbatim>\<open>AosCoreLibCpp\<close> and of
  \<^verbatim>\<open>PKCS11Provider\<close>, every tool and every log: if the tool answers a call of the method
  by raising \<open>e\<close>, then that call is the last one the method makes (nothing is retried
  and nothing runs after it) and the method itself raises \<open>e\<close>, the same exception. And
  the method raises only in this way: when its outcome is an exception \<open>e\<close>, the last
  call it made is one that the tool answered by raising \<open>e\<close>.
\<close>

theorem failures_propagate_unchanged:
  "(calls_made log (AosCoreLibCpp_method m self tool log) = before @ c # after
      \<and> tool (log @ before) c = Raises e \<longrightarrow>
        snd (AosCoreLibCpp_method m self tool log) = Raises e \<and> after = [])
   \<and> (snd (AosCoreLibCpp_method m self tool log) = Raises e \<longrightarrow>
        (\<exists>before c. calls_made log (AosCoreLibCpp_method m self tool log) = before @ [c]
           \<and> tool (log @ before) c = Raises e))
   \<and> (calls_made log' (PKCS11Provider_method m' self' tool log') = before' @ c' # after'
      \<and> tool (log' @ before') c' = Raises e' \<longrightarrow>
        snd (PKCS11Provider_method m' self' tool log') = Raises e' \<and> after' = [])
   \<and> (snd (PKCS11Provider_method m' self' tool log') = Raises e' \<longrightarrow>
        (\<exists>before c. calls_made log' (PKCS11Provider_method m' self' tool log') = before @ [c]
           \<and> tool (log' @ before) c = Raises e'))"
proof -
  from AosCoreLibCpp_method_shape [of m self] obtain cs :: "call list" where
    a: "AosCoreLibCpp_method m self = (block (map perform cs) :: 'a stmt)"
    by blast
  from PKCS11Provider_method_shape [of m' self'] obtain ds :: "call list" where
    p: "PKCS11Provider_method m' self' = (block (map perform ds) :: 'a stmt)"
    by blast
  have a1: "snd (AosCoreLibCpp_method m self tool log) = Raises e \<and> after = []"
    if "calls_made log (AosCoreLibCpp_method m self tool log) = before @ c # after"
      and "tool (log @ before) c = Raises e"
    using that performs_failure_is_last [of log cs tool before c after]
    unfolding a by simp
  have a2: "\<exists>before c. calls_made log (AosCoreLibCpp_method m self tool log) = before @ [c]
           \<and> tool (log @ before) c = Raises e"
    if "snd (AosCoreLibCpp_method m self tool log) = Raises e"
    using that unfolding a by (rule performs_raises_from_tool)
  have p1: "snd (PKCS11Provider_method m' self' tool log') = Raises e' \<and> after' = []"
    if "calls_made log' (PKCS11Provider_method m' self' tool log') = before' @ c' # after'"
      and "tool (log' @ before') c' = Raises e'"
    using that performs_failure_is_last [of log' ds tool before' c' after']
    unfolding p by simp
  have p2: "\<exists>before c. calls_made log' (PKCS11Provider_method m' self' tool log') = before @ [c]
           \<and> tool (log' @ before) c = Raises e'"
    if "snd (PKCS11Provider_method m' self' tool log') = Raises e'"
    using that unfolding p by (rule performs_raises_from_tool)
  from a1 a2 p1 p2 show ?thesis by blast
qed

theorem failures_propagate_unchanged_witness:
  "snd (AosCoreLibCpp_method Aos_requirements (AosCoreLibCpp ''/recipe'' ''/src'')
          (\<lambda>h c. case c of Run cmd cwd \<Rightarrow> Raises ''export failed'' | _ \<Rightarrow> Returns) [])
     = Raises ''export failed''
   \<and> snd (PKCS11Provider_method P11_source (PKCS11Provider ''/recipe'' ''/src'')
          (\<lambda>h c. case c of Run cmd cwd \<Rightarrow> Raises ''export failed'' | _ \<Rightarrow> Returns) [])
     = Returns
   \<and> snd (PKCS11Provider_method P11_source (PKCS11Provider ''/recipe'' ''/src'')
          (\<lambda>h c. if c = Git_checkout ''v1.0'' then Raises ''no such tag'' else Returns) [])
     = Raises ''no such tag''"
proof -
  let ?t = "\<lambda>(h :: call list) c. case c of Run cmd cwd \<Rightarrow> Raises ''export failed'' | _ \<Rightarrow> Returns"
  let ?u = "\<lambda>(h :: call list) c. if c = Git_checkout ''v1.0'' then Raises ''no such tag'' else Returns"
  let ?a = "AosCoreLibCpp ''/recipe'' ''/src''"
  let ?p = "PKCS11Provider ''/recipe'' ''/src''"
  let ?before = "[Requires ''grpc/1.54.3'', Requires ''gtest/1.14.0'', Requires ''libcurl/8.8.0'',
                  Requires ''openssl/3.2.1'', Requires ''poco/1.13.2'']"
  let ?run = "Run ''conan export /recipe/pkcs11provider-1.0.py --user user --channel stable'' ''/recipe''"
  let ?before' = "[New Git,
      Git_clone ''https://github.com/latchset/pkcs11-provider.git'' [''--branch'', ''main''] ''/src'']"
  have a1: "calls_made [] (AosCoreLibCpp_method Aos_requirements ?a ?t []) = ?before @ ?run # []"
    by (simp add: AosCoreLibCpp_requirements_def AosCoreLibCpp_def Let_def perform_def
          path_join_def calls_made_def)
  have a2: "?t ([] @ ?before) ?run = Raises ''export failed''"
    by simp
  have p1: "calls_made [] (PKCS11Provider_method P11_source ?p ?u []) =
              ?before' @ Git_checkout ''v1.0'' # []"
    by (simp add: PKCS11Provider_source_def PKCS11Provider_def Let_def perform_def calls_made_def)
  have p2: "?u ([] @ ?before') (Git_checkout ''v1.0'') = Raises ''no such tag''"
    by simp
  have r: "snd (PKCS11Provider_method P11_source ?p ?t []) = Returns"
    by (simp add: PKCS11Provider_source_def PKCS11Provider_def Let_def perform_def)
  from a1 a2 failures_propagate_unchanged
         [where log = "[]" and m = Aos_requirements and self = ?a and tool = ?t
            and before = ?before and c = ?run and after = "[]" and e = "''export failed''"]
  have A: "snd (AosCoreLibCpp_method Aos_requirements ?a ?t []) = Raises ''export failed''"
    by blast
  from p1 p2 failures_propagate_unchanged
         [where log' = "[]" and m' = P11_source and self' = ?p and tool = ?u
            and before' = ?before' and c' = "Git_checkout ''v1.0''" and after' = "[]"
            and e' = "''no such tag''"]
  have P: "snd (PKCS11Provider_method P11_source ?p ?u []) = Raises ''no such tag''"
    by blast
  from A r P show ?thesis by blast
qed

text \<open>
  C7. One invocation of any method of either class makes every call at most once: the
  calls made are pairwise distinct, whatever the tool answers. And a call that does not
  return is not repeated, nor followed by any other call.
\<close>

theorem every_call_made_at_most_once:
  "distinct (calls_made log (AosCoreLibCpp_method m self tool log))
   \<and> distinct (calls_made log' (PKCS11Provider_method m' self' tool log'))
   \<and> (calls_made log (AosCoreLibCpp_method m self tool log) = before @ c # after
      \<and> tool (log @ before) c \<noteq> Returns \<longrightarrow> after = [])
   \<and> (calls_made log' (PKCS11Provider_method m' self' tool log') = before' @ c' # after'
      \<and> tool (log' @ before') c' \<noteq> Returns \<longrightarrow> after' = [])"
proof -
  from AosCoreLibCpp_method_shape [of m self] obtain cs :: "call list" where
    a: "distinct cs" "AosCoreLibCpp_method m self = (block (map perform cs) :: 'a stmt)"
    by blast
  from PKCS11Provider_method_shape [of m' self'] obtain ds :: "call list" where
    p: "distinct ds" "PKCS11Provider_method m' self' = (block (map perform ds) :: 'a stmt)"
    by blast
  have a1: "distinct (calls_made log (AosCoreLibCpp_method m self tool log))"
    unfolding a(2) using a(1) by (rule performs_distinct)
  have p1: "distinct (calls_made log' (PKCS11Provider_method m' self' tool log'))"
    unfolding p(2) using p(1) by (rule performs_distinct)
  have a2: "after = []"
    if "calls_made log (AosCoreLibCpp_method m self tool log) = before @ c # after"
      and "tool (log @ before) c \<noteq> Returns"
    using that performs_failure_is_last [of log cs tool before c after]
    unfolding a(2) by simp
  have p2: "after' = []"
    if "calls_made log' (PKCS11Provider_method m' self' tool log') = before' @ c' # after'"
      and "tool (log' @ before') c' \<noteq> Returns"
    using that performs_failure_is_last [of log' ds tool before' c' after']
    unfolding p(2) by simp
  from a1 p1 a2 p2 show ?thesis by blast
qed

theorem every_call_made_at_most_once_witness:
  "calls_made [] (PKCS11Provider_method P11_source (PKCS11Provider ''/recipe'' ''/src'')
      (\<lambda>h c. if length h = 1 then Raises ''network down'' else Returns) []) =
     [New Git] @ Git_clone ''https://github.com/latchset/pkcs11-provider.git''
                 [''--branch'', ''main''] ''/src'' # []
   \<and> (if length ([] @ [New Git]) = 1 then Raises ''network down'' else Returns) \<noteq> Returns
   \<and> distinct (calls_made [] (PKCS11Provider_method P11_source (PKCS11Provider ''/recipe'' ''/src'')
      (\<lambda>h c. if length h = 1 then Raises ''network down'' else Returns) []))
   \<and> calls_made [] (AosCoreLibCpp_method Aos_requirements (AosCoreLibCpp ''/recipe'' ''/src'')
      (\<lambda>h c. if length h = 1 then Raises ''network down'' else Returns) []) =
     [Requires ''grpc/1.54.3''] @ Requires ''gtest/1.14.0'' # []
   \<and> (if length ([] @ [Requires ''grpc/1.54.3'']) = 1 then Raises ''network down'' else Returns)
        \<noteq> Returns
   \<and> distinct (calls_made [] (AosCoreLibCpp_method Aos_requirements (AosCoreLibCpp ''/recipe'' ''/src'')
      (\<lambda>h c. if length h = 1 then Raises ''network down'' else Returns) []))"
proof -
  let ?u = "\<lambda>(h :: call list) (c :: call). if length h = 1 then Raises ''network down'' else Returns"
  let ?a = "AosCoreLibCpp ''/recipe'' ''/src''"
  let ?p = "PKCS11Provider ''/recipe'' ''/src''"
  let ?clone = "Git_clone ''https://github.com/latchset/pkcs11-provider.git''
                 [''--branch'', ''main''] ''/src''"
  have p1: "calls_made [] (PKCS11Provider_method P11_source ?p ?u []) = [New Git] @ ?clone # []"
    by (simp add: PKCS11Provider_source_def PKCS11Provider_def Let_def perform_def calls_made_def)
  have p2: "(if length ([] @ [New Git]) = 1 then Raises ''network down'' else Returns)
              \<noteq> (Returns :: string outcome)"
    by simp
  have a1: "calls_made [] (AosCoreLibCpp_method Aos_requirements ?a ?u []) =
     [Requires ''grpc/1.54.3''] @ Requires ''gtest/1.14.0'' # []"
    by (simp add: AosCoreLibCpp_requirements_def AosCoreLibCpp_def Let_def perform_def
          calls_made_def)
  have a2: "(if length ([] @ [Requires ''grpc/1.54.3'']) = 1 then Raises ''network down'' else Returns)
              \<noteq> (Returns :: string outcome)"
    by simp
  note d = every_call_made_at_most_once
         [where log = "[]" and m = Aos_requirements and self = ?a
            and before = "[Requires ''grpc/1.54.3'']" and c = "Requires ''gtest/1.14.0''"
            and after = "[]"
            and log' = "[]" and m' = P11_source and self' = ?p and tool = ?u
            and before' = "[New Git]" and c' = ?clone and after' = "[]"]
  from d have d1: "distinct (calls_made [] (PKCS11Provider_method P11_source ?p ?u []))"
    by (rule conjunct1 [OF conjunct2])
  from d have d2: "distinct (calls_made [] (AosCoreLibCpp_method Aos_requirements ?a ?u []))"
    by (rule conjunct1)
  from p1 p2 d1 a1 a2 d2 show ?thesis by (intro conjI)
qed

text \<open>
  C8. Every method of either class is a straight line of calls: there is one fixed
  sequence of calls, the same for every tool and log, of which the method makes a prefix,
  and all of it when it returns; the sequence has at most seven calls for
  \<^verbatim>\<open>AosCoreLibCpp\<close> and at most six for \<^verbatim>\<open>PKCS11Provider\<close>. If every call into the
  external tool comes back (it returns or raises), then so does the method.
\<close>

theorem every_method_terminates:
  fixes tool :: "'e tool"
  assumes "\<And>h c. tool h c \<noteq> Hangs"
  shows "snd (AosCoreLibCpp_method m self tool log) \<noteq> Hangs
   \<and> length (calls_made log (AosCoreLibCpp_method m self tool log)) \<le> 7
   \<and> snd (PKCS11Provider_method m' self' tool log') \<noteq> Hangs
   \<and> length (calls_made log' (PKCS11Provider_method m' self' tool log')) \<le> 6
   \<and> (\<exists>body. \<forall>(t :: 'e tool) l.
          prefix (calls_made l (AosCoreLibCpp_method m self t l)) body
          \<and> (snd (AosCoreLibCpp_method m self t l) = Returns \<longrightarrow>
               calls_made l (AosCoreLibCpp_method m self t l) = body))
   \<and> (\<exists>body. \<forall>(t :: 'e tool) l.
          prefix (calls_made l (PKCS11Provider_method m' self' t l)) body
          \<and> (snd (PKCS11Provider_method m' self' t l) = Returns \<longrightarrow>
               calls_made l (PKCS11Provider_method m' self' t l) = body))"
proof -
  from AosCoreLibCpp_method_shape [of m self] obtain cs :: "call list" where
    a: "length cs \<le> 7" "AosCoreLibCpp_method m self = (block (map perform cs) :: 'e stmt)"
    by blast
  from PKCS11Provider_method_shape [of m' self'] obtain ds :: "call list" where
    p: "length ds \<le> 6" "PKCS11Provider_method m' self' = (block (map perform ds) :: 'e stmt)"
    by blast
  have a1: "snd (AosCoreLibCpp_method m self tool log) \<noteq> Hangs"
    unfolding a(2) using assms by (rule performs_no_hang)
  have p1: "snd (PKCS11Provider_method m' self' tool log') \<noteq> Hangs"
    unfolding p(2) using assms by (rule performs_no_hang)
  have a2: "length (calls_made log (AosCoreLibCpp_method m self tool log)) \<le> 7"
    unfolding a(2) using performs_length [of log cs tool] a(1) by simp
  have p2: "length (calls_made log' (PKCS11Provider_method m' self' tool log')) \<le> 6"
    unfolding p(2) using performs_length [of log' ds tool] p(1) by simp
  have a3: "\<forall>(t :: 'e tool) l.
          prefix (calls_made l (AosCoreLibCpp_method m self t l)) cs
          \<and> (snd (AosCoreLibCpp_method m self t l) = Returns \<longrightarrow>
               calls_made l (AosCoreLibCpp_method m self t l) = cs)"
    using method_calls [OF a(2)] by blast
  have p3: "\<forall>(t :: 'e tool) l.
          prefix (calls_made l (PKCS11Provider_method m' self' t l)) ds
          \<and> (snd (PKCS11Provider_method m' self' t l) = Returns \<longrightarrow>
               calls_made l (PKCS11Provider_method m' self' t l) = ds)"
    using method_calls [OF p(2)] by blast
  from a1 a2 p1 p2 a3 p3 show ?thesis by blast
qed

theorem every_method_terminates_witness:
  "(\<forall>h c. (if c = Git_checkout ''v1.0'' then Raises ''no such tag'' else Returns) \<noteq> Hangs)
   \<and> snd (AosCoreLibCpp_method Aos_requirements (AosCoreLibCpp ''/recipe'' ''/src'')
        (\<lambda>h c. if c = Git_checkout ''v1.0'' then Raises ''no such tag'' else Returns) []) \<noteq> Hangs
   \<and> snd (PKCS11Provider_method P11_source (PKCS11Provider ''/recipe'' ''/src'')
        (\<lambda>h c. if c = Git_checkout ''v1.0'' then Raises ''no such tag'' else Returns) []) \<noteq> Hangs"
proof -
  let ?u = "\<lambda>(h :: call list) c. if c = Git_checkout ''v1.0'' then Raises ''no such tag'' else Returns"
  have h: "\<And>h c. ?u h c \<noteq> Hangs" by simp
  from every_method_terminates
         [where tool = ?u and m = Aos_requirements and self = "AosCoreLibCpp ''/recipe'' ''/src''"
            and log = "[]" and m' = P11_source and self' = "PKCS11Provider ''/recipe'' ''/src''"
            and log' = "[]", OF h]
  have "snd (AosCoreLibCpp_method Aos_requirements (AosCoreLibCpp ''/recipe'' ''/src'') ?u [])
          \<noteq> Hangs
      \<and> snd (PKCS11Provider_method P11_source (PKCS11Provider ''/recipe'' ''/src'') ?u [])
          \<noteq> Hangs"
    by blast
  with h show ?thesis by blast
qed

text \<open>
  C9. When \<^verbatim>\<open>AosCoreLibCpp.requirements()\<close> returns, its last two calls are the run, in
  the recipe folder, of the export command for \<^verbatim>\<open>pkcs11provider-1.0.py\<close> and the
  requirement \<^verbatim>\<open>pkcs11provider/1.0@user/stable\<close>. The user and the channel passed to the
  export command are the user (\<^verbatim>\<open>user\<close>) and the channel (\<^verbatim>\<open>stable\<close>) of the required
  reference, and the name and the version of the reference are the \<^verbatim>\<open>name\<close> and the
  \<^verbatim>\<open>version\<close> attributes of the class \<^verbatim>\<open>PKCS11Provider\<close>.
  When the tool lets all the calls of \<^verbatim>\<open>requirements()\<close> return, the method returns,
  and the same holds.
\<close>

theorem nested_reference_consistent:
  "(snd (AosCoreLibCpp_requirements self tool log) = Returns \<longrightarrow>
      drop 5 (calls_made log (AosCoreLibCpp_requirements self tool log)) =
        [Run (conan_export_cmd (path_join (recipe_folder self) ''pkcs11provider-1.0.py'')
                (ref_user ''pkcs11provider/1.0@user/stable'')
                (ref_channel ''pkcs11provider/1.0@user/stable''))
             (recipe_folder self),
         Requires ''pkcs11provider/1.0@user/stable'']
      \<and> ref_name ''pkcs11provider/1.0@user/stable'' = name (PKCS11Provider rf sf)
      \<and> ref_version ''pkcs11provider/1.0@user/stable'' = version (PKCS11Provider rf sf)
      \<and> ref_user ''pkcs11provider/1.0@user/stable'' = ''user''
      \<and> ref_channel ''pkcs11provider/1.0@user/stable'' = ''stable'')
   \<and> (lets_return tool log
          [Requires ''grpc/1.54.3'',
           Requires ''gtest/1.14.0'',
           Requires ''libcurl/8.8.0'',
           Requires ''openssl/3.2.1'',
           Requires ''poco/1.13.2'',
           Run (''conan export '' @ path_join (recipe_folder self) ''pkcs11provider-1.0.py''
                @ '' --user user --channel stable'') (recipe_folder self),
           Requires ''pkcs11provider/1.0@user/stable''] \<longrightarrow>
      AosCoreLibCpp_requirements self tool log =
        (log @ [Requires ''grpc/1.54.3'',
           Requires ''gtest/1.14.0'',
           Requires ''libcurl/8.8.0'',
           Requires ''openssl/3.2.1'',
           Requires ''poco/1.13.2'',
           Run (''conan export '' @ path_join (recipe_folder self) ''pkcs11provider-1.0.py''
                @ '' --user user --channel stable'') (recipe_folder self),
           Requires ''pkcs11provider/1.0@user/stable''], Returns)
      \<and> drop 5 (calls_made log (AosCoreLibCpp_requirements self tool log)) =
        [Run (conan_export_cmd (path_join (recipe_folder self) ''pkcs11provider-1.0.py'')
                (ref_user ''pkcs11provider/1.0@user/stable'')
                (ref_channel ''pkcs11provider/1.0@user/stable''))
             (recipe_folder self),
         Requires ''pkcs11provider/1.0@user/stable'']
      \<and> ref_name ''pkcs11provider/1.0@user/stable'' = name (PKCS11Provider rf sf)
      \<and> ref_version ''pkcs11provider/1.0@user/stable'' = version (PKCS11Provider rf sf)
      \<and> ref_user ''pkcs11provider/1.0@user/stable'' = ''user''
      \<and> ref_channel ''pkcs11provider/1.0@user/stable'' = ''stable'')"
proof -
  let ?r = "AosCoreLibCpp_requirements self tool log"
  let ?fr = "[Requires ''grpc/1.54.3'',
           Requires ''gtest/1.14.0'',
           Requires ''libcurl/8.8.0'',
           Requires ''openssl/3.2.1'',
           Requires ''poco/1.13.2'',
           Run (''conan export '' @ path_join (recipe_folder self) ''pkcs11provider-1.0.py''
                @ '' --user user --channel stable'') (recipe_folder self),
           Requires ''pkcs11provider/1.0@user/stable'']"
  note m = method_calls [OF AosCoreLibCpp_requirements_body, of log self tool]
  note g = method_progress [OF AosCoreLibCpp_requirements_body, of tool log 0 self]
  have x: "drop 5 (calls_made log ?r) =
     [Run (conan_export_cmd (path_join (recipe_folder self) ''pkcs11provider-1.0.py'')
             (ref_user ''pkcs11provider/1.0@user/stable'')
             (ref_channel ''pkcs11provider/1.0@user/stable''))
          (recipe_folder self),
      Requires ''pkcs11provider/1.0@user/stable'']
   \<and> ref_name ''pkcs11provider/1.0@user/stable'' = name (PKCS11Provider rf sf)
   \<and> ref_version ''pkcs11provider/1.0@user/stable'' = version (PKCS11Provider rf sf)
   \<and> ref_user ''pkcs11provider/1.0@user/stable'' = ''user''
   \<and> ref_channel ''pkcs11provider/1.0@user/stable'' = ''stable''"
    if "calls_made log ?r = ?fr"
    unfolding that
    by (simp add: nested_reference_parts conan_export_cmd_def PKCS11Provider_def)
  from m g x show ?thesis by blast
qed

theorem nested_reference_consistent_witness:
  "lets_return (\<lambda>h c. Returns :: unit outcome) []
       [Requires ''grpc/1.54.3'',
         Requires ''gtest/1.14.0'',
         Requires ''libcurl/8.8.0'',
         Requires ''openssl/3.2.1'',
         Requires ''poco/1.13.2'',
         Run ''conan export /recipe/pkcs11provider-1.0.py --user user --channel stable'' ''/recipe'',
         Requires ''pkcs11provider/1.0@user/stable'']
   \<and> AosCoreLibCpp_requirements (AosCoreLibCpp ''/recipe'' ''/src'')
          (\<lambda>h c. Returns :: unit outcome) [] =
       ([] @ [Requires ''grpc/1.54.3'',
         Requires ''gtest/1.14.0'',
         Requires ''libcurl/8.8.0'',
         Requires ''openssl/3.2.1'',
         Requires ''poco/1.13.2'',
         Run ''conan export /recipe/pkcs11provider-1.0.py --user user --channel stable'' ''/recipe'',
         Requires ''pkcs11provider/1.0@user/stable''], Returns)
      \<and> drop 5 (calls_made [] (AosCoreLibCpp_requirements (AosCoreLibCpp ''/recipe'' ''/src'')
          (\<lambda>h c. Returns :: unit outcome) [])) =
       [Run (conan_export_cmd ''/recipe/pkcs11provider-1.0.py'' ''user'' ''stable'') ''/recipe'',
        Requires ''pkcs11provider/1.0@user/stable'']"
proof -
  have p: "recipe_folder (AosCoreLibCpp ''/recipe'' ''/src'') = ''/recipe''"
    "path_join ''/recipe'' ''pkcs11provider-1.0.py'' = ''/recipe/pkcs11provider-1.0.py''"
    "''conan export '' @ ''/recipe/pkcs11provider-1.0.py'' @ '' --user user --channel stable''
       = ''conan export /recipe/pkcs11provider-1.0.py --user user --channel stable''"
    by (simp_all add: AosCoreLibCpp_def path_join_def)
  have h: "lets_return (\<lambda>h c. Returns :: unit outcome) []
       [Requires ''grpc/1.54.3'',
         Requires ''gtest/1.14.0'',
         Requires ''libcurl/8.8.0'',
         Requires ''openssl/3.2.1'',
         Requires ''poco/1.13.2'',
         Run ''conan export /recipe/pkcs11provider-1.0.py --user user --channel stable'' ''/recipe'',
         Requires ''pkcs11provider/1.0@user/stable'']"
    by simp
  note t = nested_reference_consistent
         [of "AosCoreLibCpp ''/recipe'' ''/src''" "\<lambda>h c. Returns :: unit outcome" "[]"
             "''/recipe''" "''/src''", unfolded p nested_reference_parts]
  from h t show ?thesis by blast
qed

text \<open>
  C10. Both recipes are set up against the same OpenSSL: when they return, the
  \<^verbatim>\<open>requirements()\<close> of \<^verbatim>\<open>AosCoreLibCpp\<close> and of \<^verbatim>\<open>PKCS11Provider\<close> have each required
  OpenSSL once, as \<^verbatim>\<open>openssl/3.2.1\<close>, a pinned version, and the \<^verbatim>\<open>configure()\<close> of each
  has given the option \<^verbatim>\<open>shared\<close> of \<^verbatim>\<open>openssl\<close> the value \<open>True\<close> and no other value.
  Each of the four methods returns, with the same result, when the tool lets its calls
  return.
\<close>

theorem recipes_agree_on_openssl:
  "(snd (AosCoreLibCpp_requirements self tool log) = Returns \<longrightarrow>
      openssl_required (calls_made log (AosCoreLibCpp_requirements self tool log)) =
        [''openssl/3.2.1''])
   \<and> (snd (PKCS11Provider_requirements self' tool log') = Returns \<longrightarrow>
      openssl_required (calls_made log' (PKCS11Provider_requirements self' tool log')) =
        [''openssl/3.2.1''])
   \<and> (snd (AosCoreLibCpp_configure self tool log) = Returns \<longrightarrow>
      option_values ''openssl'' ''shared'' (calls_made log (AosCoreLibCpp_configure self tool log)) =
        [True])
   \<and> (snd (PKCS11Provider_configure self' tool log') = Returns \<longrightarrow>
      option_values ''openssl'' ''shared''
        (calls_made log' (PKCS11Provider_configure self' tool log')) = [True])
   \<and> pinned ''openssl/3.2.1''
   \<and> (lets_return tool log
          [Requires ''grpc/1.54.3'',
           Requires ''gtest/1.14.0'',
           Requires ''libcurl/8.8.0'',
           Requires ''openssl/3.2.1'',
           Requires ''poco/1.13.2'',
           Run (''conan export '' @ path_join (recipe_folder self) ''pkcs11provider-1.0.py''
                @ '' --user user --channel stable'') (recipe_folder self),
           Requires ''pkcs11provider/1.0@user/stable''] \<longrightarrow>
      snd (AosCoreLibCpp_requirements self tool log) = Returns
      \<and> openssl_required (calls_made log (AosCoreLibCpp_requirements self tool log)) =
        [''openssl/3.2.1''])
   \<and> (lets_return tool log' [Requires ''openssl/3.2.1''] \<longrightarrow>
      snd (PKCS11Provider_requirements self' tool log') = Returns
      \<and> openssl_required (calls_made log' (PKCS11Provider_requirements self' tool log')) =
        [''openssl/3.2.1''])
   \<and> (lets_return tool log
          [Set_option ''openssl'' ''no_dso'' False,
           Set_option ''openssl'' ''shared'' True] \<longrightarrow>
      snd (AosCoreLibCpp_configure self tool log) = Returns
      \<and> option_values ''openssl'' ''shared'' (calls_made log (AosCoreLibCpp_configure self tool log)) =
        [True])
   \<and> (lets_return tool log' [Set_option ''openssl'' ''shared'' True] \<longrightarrow>
      snd (PKCS11Provider_configure self' tool log') = Returns
      \<and> option_values ''openssl'' ''shared''
        (calls_made log' (PKCS11Provider_configure self' tool log')) = [True])"
proof -
  let ?fr = "[Requires ''grpc/1.54.3'',
           Requires ''gtest/1.14.0'',
           Requires ''libcurl/8.8.0'',
           Requires ''openssl/3.2.1'',
           Requires ''poco/1.13.2'',
           Run (''conan export '' @ path_join (recipe_folder self) ''pkcs11provider-1.0.py''
                @ '' --user user --channel stable'') (recipe_folder self),
           Requires ''pkcs11provider/1.0@user/stable'']"
  note m1 = method_calls [OF AosCoreLibCpp_requirements_body, of log self tool]
  note m2 = method_calls [OF PKCS11Provider_requirements_body, of log' self' tool]
  note m3 = method_calls [OF AosCoreLibCpp_configure_body, of log self tool]
  note m4 = method_calls [OF PKCS11Provider_configure_body, of log' self' tool]
  note g1 = method_progress [OF AosCoreLibCpp_requirements_body, of tool log 0 self]
  note g2 = method_progress [OF PKCS11Provider_requirements_body, of tool log' 0 self']
  note g3 = method_progress [OF AosCoreLibCpp_configure_body, of tool log 0 self]
  note g4 = method_progress [OF PKCS11Provider_configure_body, of tool log' 0 self']
  have x1: "openssl_required (calls_made log (AosCoreLibCpp_requirements self tool log)) =
        [''openssl/3.2.1'']"
    if "calls_made log (AosCoreLibCpp_requirements self tool log) = ?fr"
    unfolding that by (simp add: openssl_required_def required_def ref_names)
  have x2: "openssl_required (calls_made log' (PKCS11Provider_requirements self' tool log')) =
        [''openssl/3.2.1'']"
    if "calls_made log' (PKCS11Provider_requirements self' tool log') = [Requires ''openssl/3.2.1'']"
    unfolding that by (simp add: openssl_required_def required_def ref_names)
  have x3: "option_values ''openssl'' ''shared''
        (calls_made log (AosCoreLibCpp_configure self tool log)) = [True]"
    if "calls_made log (AosCoreLibCpp_configure self tool log) =
          [Set_option ''openssl'' ''no_dso'' False, Set_option ''openssl'' ''shared'' True]"
    unfolding that by (simp add: option_values_def)
  have x4: "option_values ''openssl'' ''shared''
        (calls_made log' (PKCS11Provider_configure self' tool log')) = [True]"
    if "calls_made log' (PKCS11Provider_configure self' tool log') =
          [Set_option ''openssl'' ''shared'' True]"
    unfolding that by (simp add: option_values_def)
  have 1: "snd (AosCoreLibCpp_requirements self tool log) = Returns \<longrightarrow>
      openssl_required (calls_made log (AosCoreLibCpp_requirements self tool log)) =
        [''openssl/3.2.1'']"
    using m1 x1 by blast
  have 2: "snd (PKCS11Provider_requirements self' tool log') = Returns \<longrightarrow>
      openssl_required (calls_made log' (PKCS11Provider_requirements self' tool log')) =
        [''openssl/3.2.1'']"
    using m2 x2 by blast
  have 3: "snd (AosCoreLibCpp_configure self tool log) = Returns \<longrightarrow>
      option_values ''openssl'' ''shared'' (calls_made log (AosCoreLibCpp_configure self tool log)) =
        [True]"
    using m3 x3 by blast
  have 4: "snd (PKCS11Provider_configure self' tool log') = Returns \<longrightarrow>
      option_values ''openssl'' ''shared''
        (calls_made log' (PKCS11Provider_configure self' tool log')) = [True]"
    using m4 x4 by blast
  have 5: "lets_return tool log ?fr \<longrightarrow>
      snd (AosCoreLibCpp_requirements self tool log) = Returns
      \<and> openssl_required (calls_made log (AosCoreLibCpp_requirements self tool log)) =
        [''openssl/3.2.1'']"
    using g1 x1 by (metis snd_conv)
  have 6: "lets_return tool log' [Requires ''openssl/3.2.1''] \<longrightarrow>
      snd (PKCS11Provider_requirements self' tool log') = Returns
      \<and> openssl_required (calls_made log' (PKCS11Provider_requirements self' tool log')) =
        [''openssl/3.2.1'']"
    using g2 x2 by (metis snd_conv)
  have 7: "lets_return tool log
          [Set_option ''openssl'' ''no_dso'' False, Set_option ''openssl'' ''shared'' True] \<longrightarrow>
      snd (AosCoreLibCpp_configure self tool log) = Returns
      \<and> option_values ''openssl'' ''shared'' (calls_made log (AosCoreLibCpp_configure self tool log)) =
        [True]"
    using g3 x3 by (metis snd_conv)
  have 8: "lets_return tool log' [Set_option ''openssl'' ''shared'' True] \<longrightarrow>
      snd (PKCS11Provider_configure self' tool log') = Returns
      \<and> option_values ''openssl'' ''shared''
        (calls_made log' (PKCS11Provider_configure self' tool log')) = [True]"
    using g4 x4 by (metis snd_conv)
  from 1 2 3 4 pinned_refs(4) 5 6 7 8 show ?thesis by (intro conjI)
qed

theorem recipes_agree_on_openssl_witness:
  "snd (AosCoreLibCpp_requirements (AosCoreLibCpp ''/recipe'' ''/src'')
          (\<lambda>h c. Returns :: unit outcome) []) = Returns
   \<and> snd (PKCS11Provider_requirements (PKCS11Provider ''/recipe'' ''/src'')
          (\<lambda>h c. Returns :: unit outcome) []) = Returns
   \<and> snd (AosCoreLibCpp_configure (AosCoreLibCpp ''/recipe'' ''/src'')
          (\<lambda>h c. Returns :: unit outcome) []) = Returns
   \<and> snd (PKCS11Provider_configure (PKCS11Provider ''/recipe'' ''/src'')
          (\<lambda>h c. Returns :: unit outcome) []) = Returns
   \<and> openssl_required (calls_made [] (AosCoreLibCpp_requirements (AosCoreLibCpp ''/recipe'' ''/src'')
          (\<lambda>h c. Returns :: unit outcome) [])) = [''openssl/3.2.1'']
   \<and> openssl_required (calls_made [] (PKCS11Provider_requirements
          (PKCS11Provider ''/recipe'' ''/src'') (\<lambda>h c. Returns :: unit outcome) [])) =
       [''openssl/3.2.1'']
   \<and> option_values ''openssl'' ''shared'' (calls_made [] (AosCoreLibCpp_configure
          (AosCoreLibCpp ''/recipe'' ''/src'') (\<lambda>h c. Returns :: unit outcome) [])) = [True]
   \<and> option_values ''openssl'' ''shared'' (calls_made [] (PKCS11Provider_configure
          (PKCS11Provider ''/recipe'' ''/src'') (\<lambda>h c. Returns :: unit outcome) [])) = [True]"
proof -
  let ?t = "\<lambda>(h :: call list) (c :: call). Returns :: unit outcome"
  have h1: "snd (AosCoreLibCpp_requirements (AosCoreLibCpp ''/recipe'' ''/src'') ?t []) = Returns"
    by (simp add: AosCoreLibCpp_requirements_def Let_def perform_def)
  have h2: "snd (PKCS11Provider_requirements (PKCS11Provider ''/recipe'' ''/src'') ?t []) = Returns"
    by (simp add: PKCS11Provider_requirements_def perform_def)
  have h3: "snd (AosCoreLibCpp_configure (AosCoreLibCpp ''/recipe'' ''/src'') ?t []) = Returns"
    by (simp add: AosCoreLibCpp_configure_def perform_def)
  have h4: "snd (PKCS11Provider_configure (PKCS11Provider ''/recipe'' ''/src'') ?t []) = Returns"
    by (simp add: PKCS11Provider_configure_def perform_def)
  from h1 h2 h3 h4 recipes_agree_on_openssl
         [where self = "AosCoreLibCpp ''/recipe'' ''/src''" and tool = ?t and log = "[]"
            and self' = "PKCS11Provider ''/recipe'' ''/src''" and log' = "[]"]
  show ?thesis by blast
qed

end
